theory Spec2Isabelle
  imports Complex_Main
begin

section \<open>JavaScript values, exceptions and effects\<close>

text \<open>
  The repository is a set of serverless functions (variants of \<^verbatim>\<open>api/rawg.js\<close> and
  \<^verbatim>\<open>api/giantbomb.js\<close>) that pick one random game from a remote catalogue. What the
  functions do is decided by the JSON bodies the remote service sends back, by the values
  of \<^verbatim>\<open>Math.random()\<close> and by the exceptions thrown on the way. The model makes all
  three explicit.

  A JSON document, as \<^verbatim>\<open>response.json()\<close> delivers it, together with the value
  \<^verbatim>\<open>undefined\<close> that reading a missing property or an index out of range gives.
  Numbers are the integers (identifiers and counts); objects are association lists.
\<close>

datatype json =
    JUndefined
  | JNull
  | JBool bool
  | JNum int
  | JStr string
  | JArr "json list"
  | JObj "(string \<times> json) list"

text \<open>JavaScript truthiness, as used by \<^verbatim>\<open>if (x)\<close>, \<^verbatim>\<open>!x\<close> and \<^verbatim>\<open>a && b\<close>.\<close>

fun truthy :: "json \<Rightarrow> bool" where
  "truthy JUndefined = False"
| "truthy JNull = False"
| "truthy (JBool b) = b"
| "truthy (JNum n) = (n \<noteq> 0)"
| "truthy (JStr s) = (s \<noteq> [])"
| "truthy (JArr xs) = True"
| "truthy (JObj kvs) = True"

text \<open>
  The exceptions of the programs. \<open>UpstreamError m\<close> is the \<^verbatim>\<open>Error\<close> the fetch helpers
  throw on a response that is not ok (\<open>m\<close> its message); \<open>TypeError\<close> is what the runtime
  throws on a property read of \<^verbatim>\<open>null\<close> or \<^verbatim>\<open>undefined\<close>; \<open>NoGamesError\<close> is
  \<^verbatim>\<open>new Error("A API nao retornou nenhum jogo.")\<close> and \<open>ExhaustedError\<close> is
  \<^verbatim>\<open>new Error("Nao foi possivel encontrar um jogo valido apos varias tentativas. ...")\<close>
  of the random-offset sampler (the messages are written here without their accents).
\<close>

datatype exn = UpstreamError string | TypeError | NoGamesError | ExhaustedError

text \<open>
  \<open>field v k\<close> is the property \<open>k\<close> of a value that is neither null nor undefined. The
  programs read the keys \<^verbatim>\<open>id\<close>, \<^verbatim>\<open>guid\<close>, \<^verbatim>\<open>results\<close>, \<^verbatim>\<open>name\<close>, \<^verbatim>\<open>image\<close>,
  \<^verbatim>\<open>super_url\<close>, \<^verbatim>\<open>description_raw\<close> and \<^verbatim>\<open>original_release_date\<close> this way; a
  string, a number, a boolean or an array has none of them.
\<close>

fun field :: "json \<Rightarrow> string \<Rightarrow> json" where
  "field (JObj kvs) k = (case map_of kvs k of Some v \<Rightarrow> v | None \<Rightarrow> JUndefined)"
| "field v k = JUndefined"

text \<open>The property read \<^verbatim>\<open>v.k\<close>: a TypeError on null and undefined.\<close>

definition get_prop :: "json \<Rightarrow> string \<Rightarrow> exn + json" where
  "get_prop v k = (if v = JUndefined \<or> v = JNull then Inl TypeError else Inr (field v k))"

text \<open>The element read \<^verbatim>\<open>xs[i]\<close> of an array: undefined out of range.\<close>

definition element :: "json list \<Rightarrow> int \<Rightarrow> json" where
  "element xs i = (if 0 \<le> i \<and> i < int (length xs) then xs ! nat i else JUndefined)"

subsection \<open>Double-precision arithmetic\<close>

text \<open>
  A JavaScript number is an IEEE 754 double: a rational \<open>m * 2 ^ e\<close> with \<open>\<bar>m\<bar> < 2 ^ 53\<close>
  and \<open>- 1074 \<le> e \<le> 971\<close>. The product of two doubles is the exact product rounded to
  the nearest double, a tie going to the even significand. \<open>round_half_even\<close> rounds to
  the nearest integer in this way.
\<close>

definition round_half_even :: "rat \<Rightarrow> int" where
  "round_half_even y =
     (let f = \<lfloor>y\<rfloor>; d = y - of_int f
      in if d < 1 / 2 then f else if 1 / 2 < d then f + 1 else if even f then f else f + 1)"

text \<open>
  The doubles near \<open>x \<ge> 0\<close> are the multiples of \<open>2 ^ e\<close> for the largest \<open>e\<close> from
  \<open>- 1074\<close> to \<open>971\<close> with \<open>2 ^ (e + 52) \<le> x\<close>, and for \<open>e = - 1074\<close> when there is none
  (the subnormal numbers and zero). \<open>find_exponent k\<close> looks for it among the \<open>k\<close> exponents
  above \<open>- 1074\<close>, from the largest down.
\<close>

fun find_exponent :: "nat \<Rightarrow> rat \<Rightarrow> int" where
  "find_exponent 0 x = - 1074"
| "find_exponent (Suc k) x =
     (if 2 powi (int k - 1021) \<le> x then int k - 1073 else find_exponent k x)"

definition exponent :: "rat \<Rightarrow> int" where
  "exponent x = find_exponent 2045 x"

text \<open>
  Rounding to the nearest double, for a magnitude and with the sign. The products of the
  programs are smaller in magnitude than their second factor, so none overflows.
\<close>

definition round_magnitude :: "rat \<Rightarrow> rat" where
  "round_magnitude x = of_int (round_half_even (x / 2 powi exponent x)) * 2 powi exponent x"

definition round_double :: "rat \<Rightarrow> rat" where
  "round_double x = (if x < 0 then - round_magnitude (- x) else round_magnitude x)"

text \<open>A rational is a double when rounding leaves it as it is.\<close>

definition is_double :: "rat \<Rightarrow> bool" where
  "is_double x \<longleftrightarrow> round_double x = x"

text \<open>
  \<^verbatim>\<open>Math.floor(Math.random() * n)\<close>, for the double \<open>r\<close> that \<^verbatim>\<open>Math.random()\<close> returned
  and an integer \<open>n\<close>: the product is rounded to a double before the floor is taken.
\<close>

definition random_floor :: "rat \<Rightarrow> int \<Rightarrow> int" where
  "random_floor r n = \<lfloor>round_double (r * of_int n)\<rfloor>"

text \<open>
  The state a call runs in: the requests sent to the remote service so far, in order, and
  the number of values drawn from \<^verbatim>\<open>Math.random()\<close>.
\<close>

record 'q trace =
  reqs :: "'q list"
  draws :: nat

text \<open>
  A computation either throws (\<open>Inl\<close>) or returns (\<open>Inr\<close>), and leaves a trace.
  \<open>bind_io\<close> is sequencing (\<^verbatim>\<open>await\<close> included: the calls of one invocation run
  strictly one after the other), \<open>catch_io\<close> is \<^verbatim>\<open>try { ... } catch (error) { ... }\<close>.
\<close>

type_synonym ('q, 'a) io = "'q trace \<Rightarrow> (exn + 'a) \<times> 'q trace"

definition return_io :: "'a \<Rightarrow> ('q, 'a) io" where
  "return_io a s = (Inr a, s)"

definition throw_io :: "exn \<Rightarrow> ('q, 'a) io" where
  "throw_io e s = (Inl e, s)"

definition lift_io :: "exn + 'a \<Rightarrow> ('q, 'a) io" where
  "lift_io r s = (r, s)"

definition bind_io :: "('q, 'a) io \<Rightarrow> ('a \<Rightarrow> ('q, 'b) io) \<Rightarrow> ('q, 'b) io" where
  "bind_io m f s = (case m s of (Inl e, s') \<Rightarrow> (Inl e, s') | (Inr a, s') \<Rightarrow> f a s')"

definition catch_io :: "('q, 'a) io \<Rightarrow> (exn \<Rightarrow> ('q, 'a) io) \<Rightarrow> ('q, 'a) io" where
  "catch_io m h s = (case m s of (Inl e, s') \<Rightarrow> h e s' | (Inr a, s') \<Rightarrow> (Inr a, s'))"

text \<open>
  The body of a \<^verbatim>\<open>for\<close> loop either returns from the function (\<open>Some v\<close>) or falls
  through to the next iteration (\<open>None\<close>, also what \<^verbatim>\<open>continue\<close> does). \<open>for_loop k\<close>
  runs the body (\<open>step\<close>) for the \<open>k\<close> iterations that are left and then the code
  after the loop.
\<close>

fun for_loop :: "nat \<Rightarrow> ('q, 'a option) io \<Rightarrow> ('q, 'a) io \<Rightarrow> ('q, 'a) io" where
  "for_loop 0 step after s = after s"
| "for_loop (Suc k) step after s =
     (case step s of
        (Inl e, s') \<Rightarrow> (Inl e, s')
      | (Inr (Some v), s') \<Rightarrow> (Inr v, s')
      | (Inr None, s') \<Rightarrow> for_loop k step after s')"

section \<open>The RAWG samplers (random page, then a pick in the page)\<close>

text \<open>
  The body of a listing response of \<^verbatim>\<open>/games\<close>: the total \<open>count\<close> and the page's
  \<open>results\<close> (\<open>None\<close> when the property is missing or null).
\<close>

record rawg_games =
  count :: int
  results :: "json list option"

text \<open>
  The requests \<^verbatim>\<open>rawgFetch\<close> sends: \<^verbatim>\<open>/games\<close> with \<open>genres\<close>, an optional \<open>page\<close> and
  \<open>page_size\<close>, and \<^verbatim>\<open>/games/${id}\<close>.
\<close>

datatype rawg_request =
    GamesQuery string "int option" int
  | GameById json

text \<open>
  The remote service and the random source. A reply depends on the request and on how many
  requests came before it (\<open>games_reply\<close> answers the listing requests, \<open>game_reply\<close> the
  detail requests); \<open>Inl\<close> is the error \<^verbatim>\<open>rawgFetch\<close> throws when
  \<^verbatim>\<open>response.ok\<close> is false, a listing body \<open>None\<close> is the JSON document \<^verbatim>\<open>null\<close>.
  The API key and host are the same for every request of a call and are left out.
\<close>

record rawg_world =
  games_reply :: "nat \<Rightarrow> rawg_request \<Rightarrow> exn + rawg_games option"
  game_reply :: "nat \<Rightarrow> rawg_request \<Rightarrow> exn + json"
  rawg_random :: "nat \<Rightarrow> rat"

definition rawgFetch_games ::
  "rawg_world \<Rightarrow> string \<Rightarrow> int option \<Rightarrow> int \<Rightarrow> (rawg_request, rawg_games option) io" where
  "rawgFetch_games w genres page page_size s =
     (games_reply w (length (reqs s)) (GamesQuery genres page page_size),
      s\<lparr>reqs := reqs s @ [GamesQuery genres page page_size]\<rparr>)"

definition rawgFetch_game :: "rawg_world \<Rightarrow> json \<Rightarrow> (rawg_request, json) io" where
  "rawgFetch_game w gid s =
     (game_reply w (length (reqs s)) (GameById gid), s\<lparr>reqs := reqs s @ [GameById gid]\<rparr>)"

definition rawg_Math_random :: "rawg_world \<Rightarrow> (rawg_request, rat) io" where
  "rawg_Math_random w s = (Inr (rawg_random w (draws s)), s\<lparr>draws := Suc (draws s)\<rparr>)"

text \<open>\<^verbatim>\<open>Math.min(250, Math.ceil(totalGames / 40))\<close>\<close>

definition maxPage_of :: "int \<Rightarrow> int" where
  "maxPage_of totalGames = min 250 \<lceil>(of_int totalGames :: rat) / 40\<rceil>"

text \<open>\<^verbatim>\<open>Math.floor(Math.random() * maxPage) + 1\<close>\<close>

definition randomPage_of :: "rat \<Rightarrow> int \<Rightarrow> int" where
  "randomPage_of r maxPage = random_floor r maxPage + 1"

text \<open>
  \<^verbatim>\<open>getSortedGame\<close> of \<^verbatim>\<open>src/api/rawg.js\<close>: one probe, one page, one detail, no retry
  and no check of the detail.
\<close>

definition getSortedGame_rawg :: "rawg_world \<Rightarrow> string \<Rightarrow> (rawg_request, json) io" where
  "getSortedGame_rawg w genres =
     bind_io (rawgFetch_games w genres None 1) (\<lambda>initialSearch.
       case initialSearch of
         None \<Rightarrow> throw_io TypeError
       | Some search \<Rightarrow>
           let totalGames = count search in
           if totalGames = 0 then return_io JNull
           else
             let maxPage = maxPage_of totalGames in
             bind_io (rawg_Math_random w) (\<lambda>r1.
             let randomPage = randomPage_of r1 maxPage in
             bind_io (rawgFetch_games w genres (Some randomPage) 40) (\<lambda>gameListData.
               case gameListData of
                 None \<Rightarrow> throw_io TypeError
               | Some page \<Rightarrow>
                   (case results page of
                      None \<Rightarrow> return_io JNull
                    | Some rs \<Rightarrow>
                        if length rs = 0 then return_io JNull
                        else
                          bind_io (rawg_Math_random w) (\<lambda>r2.
                          let randomGameSummary = element rs (random_floor r2 (int (length rs))) in
                          bind_io (lift_io (get_prop randomGameSummary ''id'')) (\<lambda>gid.
                          bind_io (rawgFetch_game w gid) (\<lambda>gameDetails.
                            return_io gameDetails)))))))"

text \<open>
  The retrying \<^verbatim>\<open>getSortedGame\<close> (the later revision of \<^verbatim>\<open>api/rawg.js\<close>):
  \<^verbatim>\<open>MAX_ATTEMPTS = 5\<close> iterations, each with its own probe, page and detail request.
  The validity check is \<^verbatim>\<open>gameDetails && gameDetails.description_raw\<close>.
\<close>

definition MAX_ATTEMPTS :: nat where
  "MAX_ATTEMPTS = 5"

definition rawg_valid :: "json \<Rightarrow> bool" where
  "rawg_valid gameDetails \<longleftrightarrow> truthy gameDetails \<and> truthy (field gameDetails ''description_raw'')"

definition rawg_attempt :: "rawg_world \<Rightarrow> string \<Rightarrow> (rawg_request, json option) io" where
  "rawg_attempt w genres =
     bind_io (rawgFetch_games w genres None 1) (\<lambda>initialSearch.
       case initialSearch of
         None \<Rightarrow> throw_io TypeError
       | Some search \<Rightarrow>
           let totalGames = count search in
           if totalGames = 0 then return_io (Some JNull)
           else
             let maxPage = maxPage_of totalGames in
             bind_io (rawg_Math_random w) (\<lambda>r1.
             let randomPage = randomPage_of r1 maxPage in
             bind_io (rawgFetch_games w genres (Some randomPage) 40) (\<lambda>gameListData.
               case gameListData of
                 None \<Rightarrow> throw_io TypeError
               | Some page \<Rightarrow>
                   (case results page of
                      None \<Rightarrow> return_io None
                    | Some rs \<Rightarrow>
                        if length rs > 0 then
                          bind_io (rawg_Math_random w) (\<lambda>r2.
                          let randomGameSummary = element rs (random_floor r2 (int (length rs))) in
                          bind_io (lift_io (get_prop randomGameSummary ''id'')) (\<lambda>gid.
                          bind_io (rawgFetch_game w gid) (\<lambda>gameDetails.
                            if rawg_valid gameDetails then return_io (Some gameDetails)
                            else return_io None)))
                        else return_io None))))"

definition getSortedGame_retry :: "rawg_world \<Rightarrow> string \<Rightarrow> (rawg_request, json) io" where
  "getSortedGame_retry w genres = for_loop MAX_ATTEMPTS (rawg_attempt w genres) (return_io JNull)"

section \<open>The Giant Bomb samplers\<close>

text \<open>
  The body of a listing response of \<^verbatim>\<open>/games\<close>: \<open>number_of_total_results\<close> and the
  window's \<open>results\<close> (\<open>gb_results\<close>; \<open>None\<close> when the property is missing or null).
\<close>

record gb_games =
  number_of_total_results :: int
  gb_results :: "json list option"

text \<open>
  A platform of the \<^verbatim>\<open>/platforms\<close> listing, with the fields \<^verbatim>\<open>id\<close>, \<^verbatim>\<open>name\<close> and
  \<^verbatim>\<open>release_date\<close> that the request asks for (\<open>None\<close> is a null date).
\<close>

record platform =
  platform_id :: int
  platform_name :: string
  release_date :: "string option"

text \<open>
  The requests of the Giant Bomb fetch helpers: \<^verbatim>\<open>/games\<close> with its parameters \<open>filter\<close>,
  \<open>limit\<close>, \<open>offset\<close> and \<open>field_list\<close> (the first and third are optional),
  \<^verbatim>\<open>/game/${guid}/\<close>, a plain listing of an endpoint with \<open>field_list\<close> and \<open>limit\<close>,
  and the listing of \<^verbatim>\<open>/platforms\<close> with release dates, again with \<open>field_list\<close> and
  \<open>limit\<close>.
\<close>

datatype gb_request =
    GamesReq "string option" string "int option" string
  | GameReq json
  | ListReq string string string
  | PlatformsReq string string

record gb_world =
  gb_games_reply :: "nat \<Rightarrow> gb_request \<Rightarrow> exn + gb_games option"
  gb_game_reply :: "nat \<Rightarrow> gb_request \<Rightarrow> exn + json"
  gb_list_reply :: "nat \<Rightarrow> gb_request \<Rightarrow> exn + json"
  gb_platforms_reply :: "nat \<Rightarrow> gb_request \<Rightarrow> exn + platform list option"
  gb_random :: "nat \<Rightarrow> rat"

definition giantbombFetch_games ::
  "gb_world \<Rightarrow> string option \<Rightarrow> string \<Rightarrow> int option \<Rightarrow> string \<Rightarrow> (gb_request, gb_games option) io" where
  "giantbombFetch_games w flt limit offset field_list s =
     (gb_games_reply w (length (reqs s)) (GamesReq flt limit offset field_list),
      s\<lparr>reqs := reqs s @ [GamesReq flt limit offset field_list]\<rparr>)"

definition giantbombFetch_game :: "gb_world \<Rightarrow> json \<Rightarrow> (gb_request, json) io" where
  "giantbombFetch_game w guid s =
     (gb_game_reply w (length (reqs s)) (GameReq guid), s\<lparr>reqs := reqs s @ [GameReq guid]\<rparr>)"

definition giantbombFetch_list ::
  "gb_world \<Rightarrow> string \<Rightarrow> string \<Rightarrow> string \<Rightarrow> (gb_request, json) io" where
  "giantbombFetch_list w endpoint field_list limit s =
     (gb_list_reply w (length (reqs s)) (ListReq endpoint field_list limit),
      s\<lparr>reqs := reqs s @ [ListReq endpoint field_list limit]\<rparr>)"

definition giantbombFetch_platforms ::
  "gb_world \<Rightarrow> string \<Rightarrow> string \<Rightarrow> (gb_request, platform list option) io" where
  "giantbombFetch_platforms w field_list limit s =
     (gb_platforms_reply w (length (reqs s)) (PlatformsReq field_list limit),
      s\<lparr>reqs := reqs s @ [PlatformsReq field_list limit]\<rparr>)"

definition gb_Math_random :: "gb_world \<Rightarrow> (gb_request, rat) io" where
  "gb_Math_random w s = (Inr (gb_random w (draws s)), s\<lparr>draws := Suc (draws s)\<rparr>)"

subsection \<open>The random-offset sampler with retries\<close>

text \<open>\<^verbatim>\<open>game && game.name && game.image && game.image.super_url\<close>\<close>

definition gb_valid :: "json \<Rightarrow> bool" where
  "gb_valid game \<longleftrightarrow>
     truthy game \<and> truthy (field game ''name'') \<and> truthy (field game ''image'') \<and>
     truthy (field (field game ''image'') ''super_url'')"

text \<open>
  One iteration of the loop of \<^verbatim>\<open>getRandomGame\<close>: the whole body stands in a
  \<^verbatim>\<open>try\<close> block (\<open>gb_try\<close>) whose \<^verbatim>\<open>catch\<close> logs the error and lets the loop go
  on (\<open>gb_attempt\<close>). The \<^verbatim>\<open>else\<close> branch of the validity check reads
  \<^verbatim>\<open>game.name\<close> for its log line, which throws on a null game.
\<close>

definition gb_try :: "gb_world \<Rightarrow> (gb_request, json option) io" where
  "gb_try w =
     bind_io (giantbombFetch_games w None ''1'' None ''id'') (\<lambda>countData.
       case countData of
         None \<Rightarrow> throw_io TypeError
       | Some cd \<Rightarrow>
           let totalGames = number_of_total_results cd in
           if totalGames = 0 then throw_io NoGamesError
           else
             bind_io (gb_Math_random w) (\<lambda>r.
             let randomOffset = random_floor r totalGames in
             bind_io (giantbombFetch_games w None ''1'' (Some randomOffset) ''guid'')
               (\<lambda>gameSummaryData.
               case gameSummaryData of
                 None \<Rightarrow> throw_io TypeError
               | Some sd \<Rightarrow>
                   (case gb_results sd of
                      None \<Rightarrow> return_io None
                    | Some rs \<Rightarrow>
                        if length rs = 0 then return_io None
                        else
                          bind_io (lift_io (get_prop (element rs 0) ''guid'')) (\<lambda>gameGuid.
                          bind_io (giantbombFetch_game w gameGuid) (\<lambda>gameDetailsData.
                          bind_io (lift_io (get_prop gameDetailsData ''results'')) (\<lambda>game.
                            if gb_valid game then return_io (Some game)
                            else
                              bind_io (lift_io (get_prop game ''name'')) (\<lambda>logged.
                                return_io None))))))))"

definition gb_attempt :: "gb_world \<Rightarrow> (gb_request, json option) io" where
  "gb_attempt w = catch_io (gb_try w) (\<lambda>error. return_io None)"

definition getRandomGame :: "gb_world \<Rightarrow> (gb_request, json) io" where
  "getRandomGame w = for_loop MAX_ATTEMPTS (gb_attempt w) (throw_io ExhaustedError)"

subsection \<open>The samplers without retry\<close>

text \<open>\<^verbatim>\<open>filters.join(',')\<close>\<close>

fun join_comma :: "string list \<Rightarrow> string" where
  "join_comma [] = []"
| "join_comma [x] = x"
| "join_comma (x # y # zs) = x @ '','' @ join_comma (y # zs)"

text \<open>\<^verbatim>\<open>if (v) filters.push(`${key}:${v}`)\<close>\<close>

definition filter_term :: "string \<Rightarrow> string \<Rightarrow> string list" where
  "filter_term key v = (if v \<noteq> [] then [key @ '':'' @ v] else [])"

text \<open>
  \<^verbatim>\<open>getSortedGame(apiKey, genres, platforms)\<close> of \<^verbatim>\<open>src/api/giantbomb.js\<close>. The element
  read \<^verbatim>\<open>searchData.results[Math.floor(Math.random() * searchData.results.length)]\<close>
  is not guarded: with \<open>results\<close> missing the read of \<open>length\<close> throws (after the random
  draw), with an empty array the element is undefined and the read of \<^verbatim>\<open>guid\<close> throws.
\<close>

definition getSortedGame_gb :: "gb_world \<Rightarrow> string \<Rightarrow> string \<Rightarrow> (gb_request, json) io" where
  "getSortedGame_gb w genres platforms =
     (let filters = filter_term ''genres'' genres @ filter_term ''platforms'' platforms in
      bind_io (giantbombFetch_games w (Some (join_comma filters)) ''100'' None ''guid,name'')
        (\<lambda>searchData.
        case searchData of
          None \<Rightarrow> return_io JNull
        | Some sd \<Rightarrow>
            if number_of_total_results sd = 0 then return_io JNull
            else
              bind_io (gb_Math_random w) (\<lambda>r.
              case gb_results sd of
                None \<Rightarrow> throw_io TypeError
              | Some rs \<Rightarrow>
                  let randomGameSummary = element rs (random_floor r (int (length rs))) in
                  bind_io (lift_io (get_prop randomGameSummary ''guid'')) (\<lambda>gameGuid.
                  bind_io (giantbombFetch_game w gameGuid) (\<lambda>gameDetails.
                    if truthy gameDetails then lift_io (get_prop gameDetails ''results'')
                    else return_io JNull)))))"

text \<open>
  \<^verbatim>\<open>getSortedGame(apiKey, genres, concepts, platforms)\<close> of the variant with the platform
  catalogue: the candidates are the results with a truthy \<^verbatim>\<open>original_release_date\<close>.
  \<open>filter_io\<close> is \<^verbatim>\<open>Array.prototype.filter\<close> with a callback that may throw.
\<close>

fun filter_io :: "(json \<Rightarrow> exn + bool) \<Rightarrow> json list \<Rightarrow> exn + json list" where
  "filter_io f [] = Inr []"
| "filter_io f (x # xs) =
     (case f x of
        Inl e \<Rightarrow> Inl e
      | Inr b \<Rightarrow>
          (case filter_io f xs of
             Inl e \<Rightarrow> Inl e
           | Inr ys \<Rightarrow> Inr (if b then x # ys else ys)))"

definition has_release_date :: "json \<Rightarrow> exn + bool" where
  "has_release_date game =
     (case get_prop game ''original_release_date'' of
        Inl e \<Rightarrow> Inl e
      | Inr d \<Rightarrow> Inr (truthy d))"

definition getSortedGame_curated ::
  "gb_world \<Rightarrow> string \<Rightarrow> string \<Rightarrow> string \<Rightarrow> (gb_request, json) io" where
  "getSortedGame_curated w genres concepts platforms =
     (let filters = filter_term ''genres'' genres @ filter_term ''concepts'' concepts @
                    filter_term ''platforms'' platforms in
      bind_io (giantbombFetch_games w (Some (join_comma filters)) ''100'' None
                 ''guid,name,original_release_date'')
        (\<lambda>searchData.
        case searchData of
          None \<Rightarrow> return_io JNull
        | Some sd \<Rightarrow>
            if number_of_total_results sd = 0 then return_io JNull
            else
              (case gb_results sd of
                 None \<Rightarrow> throw_io TypeError
               | Some rs \<Rightarrow>
                   bind_io (lift_io (filter_io has_release_date rs)) (\<lambda>gamesWithDate.
                   if length gamesWithDate = 0 then return_io JNull
                   else
                     bind_io (gb_Math_random w) (\<lambda>r.
                     let randomGameSummary =
                           element gamesWithDate (random_floor r (int (length gamesWithDate))) in
                     bind_io (lift_io (get_prop randomGameSummary ''guid'')) (\<lambda>gameGuid.
                     bind_io (giantbombFetch_game w gameGuid) (\<lambda>gameDetails.
                       if truthy gameDetails then lift_io (get_prop gameDetails ''results'')
                       else return_io JNull)))))))"

section \<open>The filter catalogue with the live platform listing\<close>

text \<open>The static tables of the variant (\<^verbatim>\<open>CURATED_FILTERS\<close>, \<^verbatim>\<open>MAIN_PLATFORM_IDS\<close>).\<close>

definition CURATED_FILTERS_genres :: "(int \<times> string) list" where
  "CURATED_FILTERS_genres =
     [(27, ''Survival horror''), (42, ''Beat 'em up''), (17, ''Adventure''), (10, ''Puzzle''),
      (13, ''Sports''), (12, ''Strategy''), (4, ''Racing''), (11, ''Role-Playing''),
      (31, ''Simulation''), (20, ''Platform''), (9, ''Fighting'')]"

definition CURATED_FILTERS_concepts :: "(int \<times> string) list" where
  "CURATED_FILTERS_concepts =
     [(1401, ''Stealth''), (2501, ''Eroge''), (869, ''Open World''), (2843, ''Roguelike''),
      (3045, ''Metroidvania'')]"

definition MAIN_PLATFORM_IDS :: "string list" where
  "MAIN_PLATFORM_IDS =
     [''22'', ''19'', ''35'', ''146'', ''179'', ''32'', ''20'', ''145'', ''180'', ''157'', ''94'']"

text \<open>\<^verbatim>\<open>Number.prototype.toString()\<close> on an integer: its decimal digits.\<close>

definition digit_char :: "nat \<Rightarrow> char" where
  "digit_char d = char_of (48 + d)"

function digits_of :: "nat \<Rightarrow> string" where
  "digits_of n = (if n < 10 then [digit_char n] else digits_of (n div 10) @ [digit_char (n mod 10)])"
  by pat_completeness auto
termination
  by (relation "measure (\<lambda>n. n)") auto

declare digits_of.simps [simp del]

definition toString :: "int \<Rightarrow> string" where
  "toString i = (if i < 0 then CHR ''-'' # digits_of (nat (- i)) else digits_of (nat i))"

text \<open>The truthiness of \<^verbatim>\<open>p.release_date\<close>: a string that is not empty.\<close>

definition has_release :: "platform \<Rightarrow> bool" where
  "has_release p = (case release_date p of None \<Rightarrow> False | Some d \<Rightarrow> d \<noteq> [])"

definition is_main :: "platform \<Rightarrow> bool" where
  "is_main p \<longleftrightarrow> toString (platform_id p) \<in> set MAIN_PLATFORM_IDS"

text \<open>
  The \<^verbatim>\<open>forEach\<close> over \<^verbatim>\<open>platformData.results\<close>, with the two arrays it pushes to.
\<close>

fun classify ::
  "platform list \<Rightarrow> platform list \<times> platform list \<Rightarrow> platform list \<times> platform list" where
  "classify [] (mainPlatforms, otherPlatforms) = (mainPlatforms, otherPlatforms)"
| "classify (p # ps) (mainPlatforms, otherPlatforms) =
     (if is_main p then classify ps (mainPlatforms @ [p], otherPlatforms)
      else if has_release p then classify ps (mainPlatforms, otherPlatforms @ [p])
      else classify ps (mainPlatforms, otherPlatforms))"

subsection \<open>The year of a release date\<close>

text \<open>
  \<^verbatim>\<open>new Date(text)\<close> reads a string of the date-only form \<^verbatim>\<open>YYYY-MM-DD\<close> of the
  language's date format as the instant 00:00 UTC of that day. \<open>parse_date_only\<close> gives
  year, month and day of such a string when they name a day of the calendar, and \<open>None\<close>
  for every other string.
\<close>

definition digits_value :: "string \<Rightarrow> nat option" where
  "digits_value cs =
     (if list_all (\<lambda>c. 48 \<le> (of_char c :: nat) \<and> (of_char c :: nat) \<le> 57) cs
      then Some (foldl (\<lambda>n c. 10 * n + (of_char c - 48)) 0 cs)
      else None)"

definition leap_year :: "nat \<Rightarrow> bool" where
  "leap_year y \<longleftrightarrow> y mod 4 = 0 \<and> (y mod 100 \<noteq> 0 \<or> y mod 400 = 0)"

definition days_in_month :: "nat \<Rightarrow> nat \<Rightarrow> nat" where
  "days_in_month y m =
     (if m = 2 then (if leap_year y then 29 else 28)
      else if m = 4 \<or> m = 6 \<or> m = 9 \<or> m = 11 then 30
      else 31)"

definition parse_date_only :: "string \<Rightarrow> (int \<times> nat \<times> nat) option" where
  "parse_date_only text =
     (if length text = 10 \<and> text ! 4 = CHR ''-'' \<and> text ! 7 = CHR ''-'' then
        (case (digits_value (take 4 text), digits_value (take 2 (drop 5 text)),
               digits_value (drop 8 text)) of
           (Some y, Some m, Some d) \<Rightarrow>
             if 1 \<le> m \<and> m \<le> 12 \<and> 1 \<le> d \<and> d \<le> days_in_month y m
             then Some (int y, m, d) else None
         | other \<Rightarrow> None)
      else None)"

text \<open>
  What the host of the program adds: \<open>behind_utc host y m d\<close> tells whether its local time
  is behind UTC at 00:00 UTC of the day (its time zone offset is negative then), and
  \<open>other_year host text\<close> is the year its runtime gives for a string that is not a day of
  the calendar in the date-only form (\<open>None\<close> is \<^verbatim>\<open>NaN\<close>, the year of an invalid date);
  how such strings are read differs between implementations.
\<close>

record js_host =
  behind_utc :: "int \<Rightarrow> nat \<Rightarrow> nat \<Rightarrow> bool"
  other_year :: "string \<Rightarrow> int option"

text \<open>
  \<^verbatim>\<open>new Date(platform.release_date).getFullYear()\<close>: the year of the instant in the local
  time of the host. Time zone offsets are shorter than a day, so the local day of
  00:00 UTC is the same day, or the day before on a host behind UTC; the day before
  1 January lies in the year before. A null date is the instant 0, the first day of 1970.
\<close>

definition getFullYear :: "js_host \<Rightarrow> string option \<Rightarrow> int option" where
  "getFullYear host release =
     (case release of
        None \<Rightarrow> Some (if behind_utc host 1970 1 1 then 1969 else 1970)
      | Some text \<Rightarrow>
          (case parse_date_only text of
             Some (y, m, d) \<Rightarrow> Some (if behind_utc host y m d \<and> m = 1 \<and> d = 1 then y - 1 else y)
           | None \<Rightarrow> other_year host text))"

text \<open>
  The \<^verbatim>\<open>reduce\<close> that groups by year. The keys of the accumulator are the years
  (\<open>None\<close> is the key \<^verbatim>\<open>NaN\<close>); an entry that does not exist yet starts as the empty array.
\<close>

fun group_by_year ::
  "js_host \<Rightarrow> (int option \<rightharpoonup> platform list) \<Rightarrow> platform list \<Rightarrow> (int option \<rightharpoonup> platform list)" where
  "group_by_year host acc [] = acc"
| "group_by_year host acc (platform # ps) =
     (let year = getFullYear host (release_date platform);
          bucket = (case acc year of None \<Rightarrow> [] | Some b \<Rightarrow> b)
      in group_by_year host (acc(year \<mapsto> bucket @ [platform])) ps)"

record catalog =
  catalog_genres :: "(int \<times> string) list"
  catalog_concepts :: "(int \<times> string) list"
  mainPlatforms :: "platform list"
  otherPlatformsByYear :: "int option \<rightharpoonup> platform list"

definition getCuratedFilters :: "js_host \<Rightarrow> gb_world \<Rightarrow> (gb_request, catalog) io" where
  "getCuratedFilters host w =
     bind_io (giantbombFetch_platforms w ''id,name,release_date'' ''200'') (\<lambda>platformData.
       case platformData of
         None \<Rightarrow> throw_io TypeError
       | Some platforms \<Rightarrow>
           (case classify platforms ([], []) of
              (main, other) \<Rightarrow>
                return_io
                  \<lparr>catalog_genres = CURATED_FILTERS_genres,
                   catalog_concepts = CURATED_FILTERS_concepts,
                   mainPlatforms = main,
                   otherPlatformsByYear = group_by_year host Map.empty other\<rparr>))"

section \<open>The request handlers\<close>

text \<open>
  What a handler answers: the status, the \<^verbatim>\<open>Cache-Control\<close> header if one was set, and
  the JSON body: a message (\<open>ConfigMissing\<close>, \<open>InvalidResource\<close> and \<open>NoResult\<close> are the
  three fixed texts, \<open>ErrorMessage e\<close> is \<^verbatim>\<open>error.message\<close>) or the data.
\<close>

datatype message = ConfigMissing | InvalidResource | NoResult | ErrorMessage exn

datatype 'f payload = Catalog 'f | Json json

datatype 'f body = Message message | Data "'f payload"

record 'f http_response =
  status :: nat
  cache_control :: "string option"
  body :: "'f body"

text \<open>\<^verbatim>\<open>!data\<close>: an object literal is always truthy.\<close>

fun no_data :: "'f payload \<Rightarrow> bool" where
  "no_data (Catalog c) = False"
| "no_data (Json v) = (\<not> truthy v)"

text \<open>\<^verbatim>\<open>!apiKey\<close> on an environment variable: unset or empty.\<close>

definition unset :: "string option \<Rightarrow> bool" where
  "unset v = (case v of None \<Rightarrow> True | Some x \<Rightarrow> x = [])"

text \<open>\<^verbatim>\<open>searchParams.get(k) || ''\<close>\<close>

definition or_empty :: "string option \<Rightarrow> string" where
  "or_empty v = (case v of None \<Rightarrow> [] | Some x \<Rightarrow> x)"

definition respond :: "nat \<Rightarrow> string option \<Rightarrow> 'f body \<Rightarrow> 'f http_response" where
  "respond code header b = \<lparr>status = code, cache_control = header, body = b\<rparr>"

subsection \<open>\<^verbatim>\<open>api/rawg.js\<close> (both revisions share the handler)\<close>

definition CURATED_GENRES :: "(int \<times> string) list" where
  "CURATED_GENRES =
     [(14, ''Simulation''), (10, ''Strategy''), (5, ''RPG''), (1, ''Racing''), (15, ''Sports''),
      (7, ''Puzzle''), (11, ''Arcade''), (3, ''Adventure''), (83, ''Platformer''),
      (6, ''Fighting'')]"

record rawg_env =
  RAPIDAPI_KEY :: "string option"
  RAPIDAPI_HOST :: "string option"

text \<open>
  The header is set right after the data is there, before the check for no data, so a 404
  of these handlers carries it too. \<open>getSortedGame\<close> is the sampler of the revision.
\<close>

definition handler_rawg ::
  "(rawg_world \<Rightarrow> string \<Rightarrow> (rawg_request, json) io) \<Rightarrow> rawg_env \<Rightarrow> rawg_world \<Rightarrow>
   (string \<Rightarrow> string option) \<Rightarrow> rawg_request trace \<Rightarrow>
   (int \<times> string) list http_response \<times> rawg_request trace" where
  "handler_rawg getSortedGame env w searchParams s =
     (if unset (RAPIDAPI_KEY env) \<or> unset (RAPIDAPI_HOST env)
      then (respond 500 None (Message ConfigMissing), s)
      else
        let resource = searchParams ''resource'' in
        if resource = Some ''filters'' then
          (let data = Catalog CURATED_GENRES;
               header = Some ''s-maxage=86400, stale-while-revalidate''
           in if no_data data then (respond 404 header (Message NoResult), s)
              else (respond 200 header (Data data), s))
        else if resource = Some ''game'' then
          (let genres = or_empty (searchParams ''genres'') in
           case getSortedGame w genres s of
             (Inl error, s') \<Rightarrow> (respond 500 None (Message (ErrorMessage error)), s')
           | (Inr found, s') \<Rightarrow>
               let data = Json found;
                   header = Some ''no-cache, no-store, must-revalidate''
               in if no_data data then (respond 404 header (Message NoResult), s')
                  else (respond 200 header (Data data), s'))
        else (respond 400 None (Message InvalidResource), s))"

subsection \<open>\<^verbatim>\<open>api/giantbomb.js\<close>, the variants\<close>

text \<open>
  \<^verbatim>\<open>src/api/giantbomb.js\<close>: the resources \<^verbatim>\<open>genres\<close>, \<^verbatim>\<open>platforms\<close> and \<^verbatim>\<open>game\<close>; one
  \<^verbatim>\<open>setHeader\<close> for every response with data, after the \<^verbatim>\<open>switch\<close>.
\<close>

definition handler_giantbomb ::
  "string option \<Rightarrow> gb_world \<Rightarrow> (string \<Rightarrow> string option) \<Rightarrow> gb_request trace \<Rightarrow>
   unit http_response \<times> gb_request trace" where
  "handler_giantbomb GIANTBOMB_API_KEY w searchParams s =
     (if unset GIANTBOMB_API_KEY then (respond 500 None (Message ConfigMissing), s)
      else
        let resource = searchParams ''resource'';
            fetched =
              (if resource = Some ''genres'' then Some (giantbombFetch_list w ''/genres'' ''id,name'' ''100'' s)
               else if resource = Some ''platforms'' then
                 Some (giantbombFetch_list w ''/platforms'' ''id,name'' ''100'' s)
               else if resource = Some ''game'' then
                 Some (getSortedGame_gb w (or_empty (searchParams ''genres''))
                         (or_empty (searchParams ''platforms'')) s)
               else None)
        in case fetched of
             None \<Rightarrow> (respond 400 None (Message InvalidResource), s)
           | Some (Inl error, s') \<Rightarrow> (respond 500 None (Message (ErrorMessage error)), s')
           | Some (Inr data, s') \<Rightarrow>
               if no_data (Json data :: unit payload) then (respond 404 None (Message NoResult), s')
               else (respond 200 (Some ''s-maxage=3600, stale-while-revalidate'') (Data (Json data)), s'))"

text \<open>
  The variant with the platform catalogue: \<^verbatim>\<open>filters\<close> and \<^verbatim>\<open>game\<close>, again with one
  \<^verbatim>\<open>setHeader\<close> after the \<^verbatim>\<open>switch\<close>.
\<close>

definition handler_curated ::
  "js_host \<Rightarrow> string option \<Rightarrow> gb_world \<Rightarrow> (string \<Rightarrow> string option) \<Rightarrow>
   gb_request trace \<Rightarrow> catalog http_response \<times> gb_request trace" where
  "handler_curated host GIANTBOMB_API_KEY w searchParams s =
     (if unset GIANTBOMB_API_KEY then (respond 500 None (Message ConfigMissing), s)
      else
        let resource = searchParams ''resource'';
            fetched =
              (if resource = Some ''filters'' then
                 Some (bind_io (getCuratedFilters host w) (\<lambda>c. return_io (Catalog c)) s)
               else if resource = Some ''game'' then
                 Some (bind_io
                         (getSortedGame_curated w (or_empty (searchParams ''genres''))
                            (or_empty (searchParams ''concepts''))
                            (or_empty (searchParams ''platforms'')))
                         (\<lambda>g. return_io (Json g)) s)
               else None)
        in case fetched of
             None \<Rightarrow> (respond 400 None (Message InvalidResource), s)
           | Some (Inl error, s') \<Rightarrow> (respond 500 None (Message (ErrorMessage error)), s')
           | Some (Inr data, s') \<Rightarrow>
               if no_data data then (respond 404 None (Message NoResult), s')
               else (respond 200 (Some ''s-maxage=86400, stale-while-revalidate'') (Data data), s'))"

text \<open>
  The random-game variant: the only resource is \<^verbatim>\<open>random-game\<close>, answered with
  \<^verbatim>\<open>getRandomGame\<close>.
\<close>

definition handler_random ::
  "string option \<Rightarrow> gb_world \<Rightarrow> (string \<Rightarrow> string option) \<Rightarrow> gb_request trace \<Rightarrow>
   unit http_response \<times> gb_request trace" where
  "handler_random GIANTBOMB_API_KEY w searchParams s =
     (if unset GIANTBOMB_API_KEY then (respond 500 None (Message ConfigMissing), s)
      else
        let resource = searchParams ''resource'' in
        if resource = Some ''random-game'' then
          (case getRandomGame w s of
             (Inl error, s') \<Rightarrow> (respond 500 None (Message (ErrorMessage error)), s')
           | (Inr data, s') \<Rightarrow>
               if no_data (Json data :: unit payload) then (respond 404 None (Message NoResult), s')
               else (respond 200 (Some ''no-cache, no-store, must-revalidate'') (Data (Json data)), s'))
        else (respond 400 None (Message InvalidResource), s))"

section \<open>Failed requests and exhausted budgets\<close>

text \<open>
  \<open>rawg_failure w i q\<close> is the error of the fetch helper when the request \<open>q\<close>, sent as
  the request number \<open>i\<close>, got a response that is not ok; \<open>gb_failure\<close> likewise.
\<close>

definition rawg_failure :: "rawg_world \<Rightarrow> nat \<Rightarrow> rawg_request \<Rightarrow> exn option" where
  "rawg_failure w i q =
     (case q of
        GamesQuery genres page page_size \<Rightarrow>
          (case games_reply w i q of Inl e \<Rightarrow> Some e | Inr b \<Rightarrow> None)
      | GameById gid \<Rightarrow>
          (case game_reply w i q of Inl e \<Rightarrow> Some e | Inr b \<Rightarrow> None))"

definition gb_failure :: "gb_world \<Rightarrow> nat \<Rightarrow> gb_request \<Rightarrow> exn option" where
  "gb_failure w i q =
     (case q of
        GamesReq flt limit offset field_list \<Rightarrow>
          (case gb_games_reply w i q of Inl e \<Rightarrow> Some e | Inr b \<Rightarrow> None)
      | GameReq guid \<Rightarrow>
          (case gb_game_reply w i q of Inl e \<Rightarrow> Some e | Inr b \<Rightarrow> None)
      | ListReq endpoint field_list limit \<Rightarrow>
          (case gb_list_reply w i q of Inl e \<Rightarrow> Some e | Inr b \<Rightarrow> None)
      | PlatformsReq field_list limit \<Rightarrow>
          (case gb_platforms_reply w i q of Inl e \<Rightarrow> Some e | Inr b \<Rightarrow> None))"

text \<open>
  A computation fails fast (with respect to \<open>F\<close>, which tells the failed requests) when
  it only appends to the trace and a failed request among those it sent is the last one
  it sent, its error being the exception of the computation.
\<close>

definition fail_fast :: "(nat \<Rightarrow> 'q \<Rightarrow> exn option) \<Rightarrow> ('q, 'a) io \<Rightarrow> bool" where
  "fail_fast F m \<longleftrightarrow>
     (\<forall>s r s1. m s = (r, s1) \<longrightarrow>
        (\<exists>new. reqs s1 = reqs s @ new \<and>
           (\<forall>j<length new. \<forall>e. F (length (reqs s) + j) (new ! j) = Some e \<longrightarrow>
              r = Inl e \<and> Suc j = length new)))"

text \<open>
  The retry budget is exhausted when each of the \<open>k\<close> iterations, run one after the other
  from \<open>s\<close>, falls through to the next one: none returns and none throws.
\<close>

fun all_fail :: "nat \<Rightarrow> ('q, 'a option) io \<Rightarrow> 'q trace \<Rightarrow> bool" where
  "all_fail 0 step s = True"
| "all_fail (Suc k) step s =
     (case step s of
        (Inr None, s') \<Rightarrow> all_fail k step s'
      | (r, s') \<Rightarrow> False)"

section \<open>Scenarios\<close>

text \<open>
  Concrete remote services, used to run the programs. \<open>start\<close> is the trace of a fresh
  invocation; every scenario draws \<open>1/2\<close> from \<^verbatim>\<open>Math.random()\<close>.
\<close>

definition start :: "'q trace" where
  "start = \<lparr>reqs = [], draws = 0\<rparr>"

definition tetris :: json where
  "tetris = JObj [(''id'', JNum 7), (''name'', JStr ''Tetris''), (''description_raw'', JStr ''Falling blocks'')]"

definition blank_detail :: json where
  "blank_detail = JObj [(''id'', JNum 7), (''name'', JStr ''Tetris''), (''description_raw'', JStr [])]"

definition rawg_page :: "int \<Rightarrow> rawg_games option" where
  "rawg_page n = Some \<lparr>count = n, results = Some [JObj [(''id'', JNum 7)]]\<rparr>"

text \<open>9001 games, and a detail with a description.\<close>

definition rawg_world_valid :: rawg_world where
  "rawg_world_valid =
     \<lparr>games_reply = (\<lambda>n q. Inr (rawg_page 9001)),
      game_reply = (\<lambda>n q. Inr tetris),
      rawg_random = (\<lambda>n. 1 / 2)\<rparr>"

text \<open>The same, but the description of every detail is the empty string.\<close>

definition rawg_world_blank :: rawg_world where
  "rawg_world_blank =
     \<lparr>games_reply = (\<lambda>n q. Inr (rawg_page 9001)),
      game_reply = (\<lambda>n q. Inr blank_detail),
      rawg_random = (\<lambda>n. 1 / 2)\<rparr>"

text \<open>No game matches the filter.\<close>

definition rawg_world_zero :: rawg_world where
  "rawg_world_zero =
     \<lparr>games_reply = (\<lambda>n q. Inr (Some \<lparr>count = 0, results = Some []\<rparr>)),
      game_reply = (\<lambda>n q. Inr JNull),
      rawg_random = (\<lambda>n. 1 / 2)\<rparr>"

text \<open>The first request fails with status 503; every later one succeeds.\<close>

definition rawg_world_flaky :: rawg_world where
  "rawg_world_flaky =
     \<lparr>games_reply = (\<lambda>n q. if n = 0 then Inl (UpstreamError ''Service Unavailable'')
                            else Inr (rawg_page 9001)),
      game_reply = (\<lambda>n q. Inr tetris),
      rawg_random = (\<lambda>n. 1 / 2)\<rparr>"

definition doom :: json where
  "doom = JObj [(''name'', JStr ''Doom''), (''image'', JObj [(''super_url'', JStr ''doom.png'')])]"

definition doom_summary :: json where
  "doom_summary =
     JObj [(''guid'', JStr ''3030-1''), (''name'', JStr ''Doom''),
           (''original_release_date'', JStr ''1993-12-10'')]"

definition gb_window :: "int \<Rightarrow> json list \<Rightarrow> gb_games option" where
  "gb_window n rs = Some \<lparr>number_of_total_results = n, gb_results = Some rs\<rparr>"

definition gb_world_of ::
  "(nat \<Rightarrow> gb_request \<Rightarrow> exn + gb_games option) \<Rightarrow> json \<Rightarrow> gb_world" where
  "gb_world_of games detail =
     \<lparr>gb_games_reply = games,
      gb_game_reply = (\<lambda>n q. Inr (JObj [(''results'', detail)])),
      gb_list_reply = (\<lambda>n q. Inr (JObj [(''results'', JArr [])])),
      gb_platforms_reply = (\<lambda>n q. Inr (Some [])),
      gb_random = (\<lambda>n. 1 / 2)\<rparr>"

text \<open>Three games, and a detail with a name and an image.\<close>

definition gb_world_valid :: gb_world where
  "gb_world_valid = gb_world_of (\<lambda>n q. Inr (gb_window 3 [doom_summary])) doom"

text \<open>The same, but no detail has an image.\<close>

definition gb_world_blank :: gb_world where
  "gb_world_blank =
     gb_world_of (\<lambda>n q. Inr (gb_window 3 [doom_summary])) (JObj [(''name'', JStr ''Doom'')])"

text \<open>The first request fails with status 503; every later one succeeds.\<close>

definition gb_world_flaky :: gb_world where
  "gb_world_flaky =
     gb_world_of (\<lambda>n q. if n = 0 then Inl (UpstreamError ''Service Unavailable'')
                         else Inr (gb_window 3 [doom_summary])) doom"

text \<open>The first probe reports no game at all; every later request sees three.\<close>

definition gb_world_zero_first :: gb_world where
  "gb_world_zero_first =
     gb_world_of (\<lambda>n q. if n = 0 then Inr (gb_window 0 []) else Inr (gb_window 3 [doom_summary])) doom"

text \<open>Every probe reports no game.\<close>

definition gb_world_zero :: gb_world where
  "gb_world_zero = gb_world_of (\<lambda>n q. Inr (gb_window 0 [])) doom"

text \<open>Four games are reported, but the array of results is empty.\<close>

definition gb_world_empty :: gb_world where
  "gb_world_empty = gb_world_of (\<lambda>n q. Inr (gb_window 4 [])) doom"

text \<open>
  The double nearest to 0.7 (\<^verbatim>\<open>0x3FE6666666666666\<close>, a little less than 7/10), and a
  service with 400 games where \<^verbatim>\<open>Math.random()\<close> returns it.
\<close>

definition seven_tenths :: rat where
  "seven_tenths = 6305039478318694 / 9007199254740992"

definition rawg_world_rounding :: rawg_world where
  "rawg_world_rounding =
     \<lparr>games_reply = (\<lambda>n q. Inr (rawg_page 400)),
      game_reply = (\<lambda>n q. Inr tetris),
      rawg_random = (\<lambda>n. seven_tenths)\<rparr>"

text \<open>
  Two hosts: one on UTC and one whose local time is behind UTC, as at UTC-03:00. Both give
  \<^verbatim>\<open>NaN\<close> for every string that is not a day of the calendar in the date-only form.
\<close>

definition host_utc :: js_host where
  "host_utc = \<lparr>behind_utc = (\<lambda>y m d. False), other_year = (\<lambda>text. None)\<rparr>"







text \<open>A request for the resource \<^verbatim>\<open>game\<close> with no filter.\<close>

definition game_query :: "string \<Rightarrow> string option" where
  "game_query k = (if k = ''resource'' then Some ''game'' else None)"

section \<open>Helper lemmas\<close>

lemmas io_defs = bind_io_def return_io_def throw_io_def lift_io_def catch_io_def
lemmas rawg_defs = rawgFetch_games_def rawgFetch_game_def rawg_Math_random_def
lemmas gb_defs = giantbombFetch_games_def giantbombFetch_game_def gb_Math_random_def

subsection \<open>Arithmetic of the page number\<close>

lemma ceil40: "- (- c div 40) = (c + 39) div (40::int)"
proof -
  have a: "- c = 40 * (- c div 40) + (- c mod 40)" by simp
  have b: "0 \<le> (- c) mod 40" "(- c) mod 40 < 40" by simp_all
  have c: "c + 39 = 40 * ((c + 39) div 40) + ((c + 39) mod 40)" by simp
  have d: "0 \<le> (c + 39) mod 40" "(c + 39) mod 40 < 40" by simp_all
  show ?thesis using a b c d by linarith
qed

lemma maxPage_div: "maxPage_of c = min 250 ((c + 39) div 40)"
proof -
  have "\<lceil>(of_int c :: rat) / 40\<rceil> = - (- c div 40)"
    using ceiling_divide_eq_div [of c 40, where ?'a = rat] by simp
  then show ?thesis by (simp add: maxPage_of_def ceil40)
qed

lemma maxPage_positive: "0 < c \<Longrightarrow> 1 \<le> maxPage_of c"
  by (simp add: maxPage_div)

subsection \<open>Rounding to a double\<close>

lemma round_half_even_nonneg: "0 \<le> y \<Longrightarrow> 0 \<le> round_half_even y"
  by (auto simp: round_half_even_def Let_def)

lemma round_half_even_int [simp]: "round_half_even (of_int k) = k"
  by (simp add: round_half_even_def)

lemma round_half_even_below:
  assumes "y < of_int N - 1 / 2"
  shows "round_half_even y < N"
proof -
  have f: "\<lfloor>y\<rfloor> < N" using assms by (simp add: floor_less_iff)
  show ?thesis
  proof (cases "\<lfloor>y\<rfloor> = N - 1")
    case True
    then have "y - of_int \<lfloor>y\<rfloor> < 1 / 2" using assms by simp
    then show ?thesis using True by (simp add: round_half_even_def)
  next
    case False
    then have "\<lfloor>y\<rfloor> + 1 < N" using f by simp
    then show ?thesis by (auto simp: round_half_even_def Let_def)
  qed
qed

lemma find_exponent_range: "- 1074 \<le> find_exponent k x \<and> find_exponent k x \<le> int k - 1074"
  by (induction k) auto

lemma find_exponent_lower:
  "find_exponent k x = - 1074 \<or> 2 powi (find_exponent k x + 52) \<le> x"
  by (induction k) (auto simp: algebra_simps)

lemma find_exponent_unique:
  assumes "- 1074 < e" "e \<le> int k - 1074" "2 powi (e + 52) \<le> x" "x < 2 powi (e + 53)"
  shows "find_exponent k x = e"
  using assms
proof (induction k)
  case 0
  then show ?case by simp
next
  case (Suc k)
  show ?case
  proof (cases "e = int k - 1073")
    case True
    then have "e + 52 = int k - 1021" by simp
    with Suc.prems(3) show ?thesis using True by simp
  next
    case False
    then have le: "e \<le> int k - 1074" using Suc.prems(2) by simp
    then have "e + 53 \<le> int k - 1021" by simp
    then have "(2::rat) powi (e + 53) \<le> 2 powi (int k - 1021)"
      by (intro power_int_increasing) simp_all
    then have "\<not> 2 powi (int k - 1021) \<le> x" using Suc.prems(4) by simp
    then show ?thesis using Suc.IH [OF Suc.prems(1) le Suc.prems(3,4)] by simp
  qed
qed

lemma find_exponent_small:
  "x < 2 powi (- 1021) \<Longrightarrow> find_exponent k x = - 1074"
proof (induction k)
  case 0
  then show ?case by simp
next
  case (Suc k)
  have "(2::rat) powi (- 1021) \<le> 2 powi (int k - 1021)"
    by (intro power_int_increasing) simp_all
  then show ?case using Suc by simp
qed

lemma exponent_range: "- 1074 \<le> exponent x" "exponent x \<le> 971"
  using find_exponent_range [of 2045 x] by (simp_all add: exponent_def)

lemma exponent_lower: "exponent x = - 1074 \<or> 2 powi (exponent x + 52) \<le> x"
  unfolding exponent_def by (rule find_exponent_lower)

lemma exponent_unique:
  "- 1074 < e \<Longrightarrow> e \<le> 971 \<Longrightarrow> 2 powi (e + 52) \<le> x \<Longrightarrow> x < 2 powi (e + 53) \<Longrightarrow> exponent x = e"
  unfolding exponent_def by (rule find_exponent_unique) simp_all

lemma exponent_nonpos:
  assumes "x < 2 ^ 53"
  shows "exponent x \<le> 0"
proof (rule ccontr)
  assume "\<not> exponent x \<le> 0"
  then have pos: "1 \<le> exponent x" by simp
  then have "2 powi (exponent x + 52) \<le> x" using exponent_lower [of x] by auto
  moreover have "(2::rat) powi 53 \<le> 2 powi (exponent x + 52)"
    using pos by (intro power_int_increasing) simp_all
  ultimately show False using assms by simp
qed

lemma exponent_negative:
  assumes "x < 2 ^ 52"
  shows "exponent x \<le> - 1"
proof (rule ccontr)
  assume "\<not> exponent x \<le> - 1"
  then have pos: "0 \<le> exponent x" by simp
  then have "2 powi (exponent x + 52) \<le> x" using exponent_lower [of x] by auto
  moreover have "(2::rat) powi 52 \<le> 2 powi (exponent x + 52)"
    using pos by (intro power_int_increasing) simp_all
  ultimately show False using assms by simp
qed

lemma powi_neg_nat: "e \<le> 0 \<Longrightarrow> (2::rat) powi e = 1 / 2 ^ nat (- e)"
  by (simp add: power_int_def field_simps)

lemma round_magnitude_nonneg: "0 \<le> x \<Longrightarrow> 0 \<le> round_magnitude x"
  by (simp add: round_magnitude_def round_half_even_nonneg)

lemma round_magnitude_exact:
  assumes "x / 2 powi exponent x = of_int j"
  shows "round_magnitude x = x"
proof -
  have "of_int (round_half_even (x / 2 powi exponent x)) * 2 powi exponent x =
      (x / 2 powi exponent x) * 2 powi exponent x"
    using assms by simp
  then show ?thesis by (simp add: round_magnitude_def)
qed

lemma round_magnitude_half:
  assumes "0 \<le> k" "k < 2 ^ 53"
  shows "round_magnitude (of_int k / 2) = of_int k / 2"
proof -
  let ?x = "of_int k / 2 :: rat"
  have "?x < 2 ^ 52" using assms(2) by simp
  then have e: "exponent ?x \<le> - 1" by (rule exponent_negative)
  define d where "d = nat (- exponent ?x - 1)"
  have "nat (- exponent ?x) = Suc d" using e by (simp add: d_def)
  then have "(2::rat) powi exponent ?x = 1 / 2 ^ Suc d"
    using powi_neg_nat [of "exponent ?x"] e by simp
  then have "?x / 2 powi exponent ?x = of_int (k * 2 ^ d)" by simp
  then show ?thesis by (rule round_magnitude_exact)
qed

lemma round_magnitude_below:
  assumes r: "0 \<le> r" "r \<le> 1 - 1 / 2 ^ 53" and n: "1 \<le> n" "n \<le> 2 ^ 53"
  shows "round_magnitude (r * of_int n) < of_int n"
proof -
  let ?x = "r * of_int n :: rat"
  let ?e = "exponent ?x"
  have n0: "(0::rat) < of_int n" using n by simp
  have gap: "?x \<le> of_int n - of_int n / 2 ^ 53"
  proof -
    have "?x \<le> (1 - 1 / 2 ^ 53) * of_int n"
      using r n0 by (intro mult_right_mono) simp_all
    then show ?thesis by (simp add: algebra_simps)
  qed
  have "(0::rat) < of_int n / 2 ^ 53" using n0 by simp
  then have lt: "?x < of_int n" using gap by linarith
  have "(of_int n :: rat) \<le> 2 ^ 53" using n(2) by (metis of_int_le_iff of_int_numeral of_int_power)
  then have "?x < 2 ^ 53" using lt by simp
  then have e0: "?e \<le> 0" by (rule exponent_nonpos)
  have p: "(2::rat) powi ?e = 1 / 2 ^ nat (- ?e)" using e0 by (rule powi_neg_nat)
  have ppos: "(0::rat) < 2 powi ?e" by simp
  define N where "N = n * 2 ^ nat (- ?e)"
  have N: "(of_int N :: rat) = of_int n / 2 powi ?e" by (simp add: N_def p)
  have small: "(2::rat) powi ?e < of_int n / 2 ^ 52"
  proof -
    from exponent_lower [of ?x] show ?thesis
    proof
      assume "?e = - 1074"
      then have "(2::rat) powi ?e < 2 powi (- 52)"
        by (simp only: power_int_strict_increasing)
      also have "\<dots> = 1 / 2 ^ 52" by (simp add: power_int_def field_simps)
      also have "\<dots> \<le> of_int n / 2 ^ 52" using n(1) by (simp add: divide_right_mono)
      finally show ?thesis .
    next
      assume "2 powi (?e + 52) \<le> ?x"
      then have "(2::rat) powi ?e * 2 ^ 52 \<le> ?x" by (simp add: power_int_add)
      then have "(2::rat) powi ?e * 2 ^ 52 < of_int n" using lt by simp
      then show ?thesis by (simp add: field_simps)
    qed
  qed
  have "?x < of_int n - 2 powi ?e / 2"
  proof -
    have "2 powi ?e / 2 < (of_int n :: rat) / 2 ^ 53" using small by simp
    then show ?thesis using gap by simp
  qed
  then have "?x / 2 powi ?e < (of_int n - 2 powi ?e / 2) / 2 powi ?e"
    using ppos by (simp add: divide_strict_right_mono)
  also have "\<dots> = of_int N - 1 / 2" using ppos by (simp add: N diff_divide_distrib)
  finally have "round_half_even (?x / 2 powi ?e) < N" by (rule round_half_even_below)
  then have "round_half_even (?x / 2 powi ?e) \<le> N - 1" by simp
  then have "(of_int (round_half_even (?x / 2 powi ?e)) :: rat) \<le> of_int (N - 1)"
    by (simp only: of_int_le_iff)
  then have "round_magnitude ?x \<le> of_int (N - 1) * 2 powi ?e"
    unfolding round_magnitude_def using ppos by (intro mult_right_mono) simp_all
  also have "\<dots> = of_int n - 2 powi ?e" using ppos by (simp add: N left_diff_distrib)
  also have "\<dots> < of_int n" using ppos by simp
  finally show ?thesis .
qed

lemma double_below_one:
  assumes d: "is_double r" and r: "0 \<le> r" "r < 1"
  shows "r \<le> 1 - 1 / 2 ^ 53"
proof (rule ccontr)
  assume "\<not> r \<le> 1 - 1 / 2 ^ 53"
  then have big: "1 - 1 / 2 ^ 53 < r" by simp
  have half: "(1::rat) / 2 \<le> 1 - 1 / 2 ^ 53" by simp
  have "2 powi (- 53 + 52) \<le> r" using big half by (simp add: power_int_def)
  moreover have "r < 2 powi (- 53 + 53)" using r by simp
  ultimately have e: "exponent r = - 53" by (intro exponent_unique) simp_all
  have p: "(2::rat) powi (- 53) = 1 / 2 ^ 53" by (simp add: power_int_def field_simps)
  define m where "m = round_half_even (r / 2 powi (- 53))"
  have "round_magnitude r = r" using d r by (simp add: is_double_def round_double_def)
  then have "of_int m * (1 / 2 ^ 53) = r" by (simp add: round_magnitude_def e m_def p)
  then have m: "(of_int m :: rat) = r * 2 ^ 53" by (simp add: field_simps)
  have "(of_int m :: rat) < 2 ^ 53" using r m by simp
  then have "(of_int m :: rat) < of_int (2 ^ 53)" by simp
  then have up: "m < 2 ^ 53" by (simp only: of_int_less_iff)
  have "(2 ^ 53 - 1 :: rat) < of_int m" using big m by (simp add: field_simps)
  then have "(of_int (2 ^ 53 - 1) :: rat) < of_int m" by simp
  then have "2 ^ 53 - 1 < m" by (simp only: of_int_less_iff)
  with up show False by simp
qed

lemma random_floor_range:
  assumes "is_double r" "0 \<le> r" "r < 1" "0 < n" "n \<le> 2 ^ 53"
  shows "0 \<le> random_floor r n \<and> random_floor r n < n"
proof -
  have x: "0 \<le> r * of_int n" using assms by simp
  have le: "r \<le> 1 - 1 / 2 ^ 53" by (rule double_below_one [OF assms(1,2,3)])
  have "round_magnitude (r * of_int n) < of_int n"
    using assms by (intro round_magnitude_below le) simp_all
  moreover have "0 \<le> round_magnitude (r * of_int n)" using x by (rule round_magnitude_nonneg)
  ultimately show ?thesis
    using x by (simp add: random_floor_def round_double_def floor_less_iff)
qed

lemma random_floor_half [simp]:
  assumes "0 \<le> n" "n < 2 ^ 53"
  shows "random_floor (1 / 2) n = n div 2"
proof -
  have a: "(1 / 2 :: rat) * of_int n = of_int n / 2" by simp
  have "\<not> (of_int n / 2 :: rat) < 0" using assms(1) by simp
  then have b: "round_double (of_int n / 2) = of_int n / 2"
    unfolding round_double_def using round_magnitude_half [OF assms] by (simp only: if_False)
  have c: "\<lfloor>(of_int n :: rat) / 2\<rfloor> = n div 2"
    using floor_divide_of_int_eq [of n 2, where ?'a = rat] by simp
  show ?thesis unfolding random_floor_def a b by (rule c)
qed

lemma half_is_double: "is_double (1 / 2)"
  using round_magnitude_half [of 1] by (simp add: is_double_def round_double_def)

subsection \<open>The loop\<close>

lemma for_loop_calls:
  assumes step: "\<And>s. length (reqs (snd (step s))) \<le> length (reqs s) + c"
    and after: "\<And>s. reqs (snd (after s)) = reqs s"
  shows "length (reqs (snd (for_loop k step after s))) \<le> length (reqs s) + c * k"
proof (induction k arbitrary: s)
  case 0
  then show ?case by (simp add: after)
next
  case (Suc k)
  obtain r s' where b: "step s = (r, s')" by (cases "step s")
  have le: "length (reqs s') \<le> length (reqs s) + c" using step [of s] b by simp
  show ?case
  proof (cases r)
    case (Inl e)
    then show ?thesis using b le by simp
  next
    case (Inr o1)
    show ?thesis
    proof (cases o1)
      case None
      have "length (reqs (snd (for_loop k step after s'))) \<le> length (reqs s') + c * k"
        by (rule Suc.IH)
      then show ?thesis using b Inr None le by simp
    next
      case (Some v)
      then show ?thesis using b Inr le by simp
    qed
  qed
qed

lemma for_loop_result:
  assumes "for_loop k step after s = (Inr v, s')"
  shows "(\<exists>s0. step s0 = (Inr (Some v), s')) \<or> (\<exists>s0. after s0 = (Inr v, s'))"
  using assms
proof (induction k arbitrary: s)
  case 0
  then show ?case by auto
next
  case (Suc k)
  then show ?case
    by (auto split: prod.splits sum.splits option.splits)
qed

lemma for_loop_error:
  assumes "for_loop k step after s = (Inl e, s')"
  shows "(\<exists>s0. step s0 = (Inl e, s')) \<or> (\<exists>s0. after s0 = (Inl e, s'))"
  using assms
proof (induction k arbitrary: s)
  case 0
  then show ?case by auto
next
  case (Suc k)
  then show ?case
    by (auto split: prod.splits sum.splits option.splits)
qed

subsection \<open>One attempt\<close>

lemma rawg_attempt_calls:
  "length (reqs (snd (rawg_attempt w g s))) \<le> length (reqs s) + 3"
  by (auto simp: rawg_attempt_def io_defs rawg_defs Let_def
      split: sum.splits option.splits if_splits prod.splits)

lemma rawg_attempt_some:
  "rawg_attempt w g s = (Inr (Some v), s') \<Longrightarrow> v = JNull \<or> rawg_valid v"
  by (auto simp: rawg_attempt_def io_defs rawg_defs Let_def
      split: sum.splits option.splits if_splits prod.splits)

lemma getSortedGame_rawg_detail:
  "getSortedGame_rawg w g s = (Inr v, s') \<Longrightarrow>
     (v = JNull \<and> length (reqs s') < length (reqs s) + 3) \<or>
     (\<exists>page gid.
        reqs s' = reqs s @ [GamesQuery g None 1, GamesQuery g (Some page) 40, GameById gid] \<and>
        game_reply w (length (reqs s) + 2) (GameById gid) = Inr v)"
  by (auto simp: getSortedGame_rawg_def io_defs rawg_defs Let_def
      split: sum.splits option.splits if_splits prod.splits)

lemma getSortedGame_rawg_unchecked:
  "getSortedGame_rawg w g s = (r, s') \<Longrightarrow> reqs s' = reqs s @ [q1, q2, GameById gid] \<Longrightarrow>
     game_reply w (length (reqs s) + 2) (GameById gid) = Inr d \<Longrightarrow> r = Inr d"
  by (auto simp: getSortedGame_rawg_def io_defs rawg_defs Let_def
      split: sum.splits option.splits if_splits prod.splits)

lemma gb_attempt_calls:
  "length (reqs (snd (gb_attempt w s))) \<le> length (reqs s) + 3"
  by (auto simp: gb_attempt_def gb_try_def io_defs gb_defs Let_def
      split: sum.splits option.splits if_splits prod.splits)

lemma gb_attempt_some:
  "gb_attempt w s = (Inr (Some v), s') \<Longrightarrow> gb_valid v"
  by (auto simp: gb_attempt_def gb_try_def io_defs gb_defs Let_def
      split: sum.splits option.splits if_splits prod.splits)

lemma gb_attempt_no_throw: "gb_attempt w s \<noteq> (Inl e, s')"
  by (auto simp: gb_attempt_def io_defs split: sum.splits prod.splits)

lemma rawg_valid_field:
  "rawg_valid v \<Longrightarrow> field v ''description_raw'' \<noteq> JStr [] \<and>
     field v ''description_raw'' \<noteq> JNull \<and> field v ''description_raw'' \<noteq> JUndefined"
  by (auto simp: rawg_valid_def)

subsection \<open>The scenarios, one attempt at a time\<close>

lemma maxPage_9001: "maxPage_of 9001 = 226"
  by (simp add: maxPage_div)

lemma rawg_valid_attempt:
  "rawg_attempt rawg_world_valid g s =
     (Inr (Some tetris),
      s\<lparr>reqs := reqs s @ [GamesQuery g None 1, GamesQuery g (Some 114) 40, GameById (JNum 7)],
        draws := Suc (Suc (draws s))\<rparr>)"
  by (simp add: rawg_attempt_def rawg_world_valid_def rawg_page_def io_defs rawg_defs Let_def
      maxPage_9001 randomPage_of_def element_def get_prop_def rawg_valid_def tetris_def)

lemma rawg_blank_attempt:
  "rawg_attempt rawg_world_blank g s =
     (Inr None,
      s\<lparr>reqs := reqs s @ [GamesQuery g None 1, GamesQuery g (Some 114) 40, GameById (JNum 7)],
        draws := Suc (Suc (draws s))\<rparr>)"
  by (simp add: rawg_attempt_def rawg_world_blank_def rawg_page_def io_defs rawg_defs Let_def
      maxPage_9001 randomPage_of_def element_def get_prop_def rawg_valid_def blank_detail_def)

lemma rawg_blank_once:
  "getSortedGame_rawg rawg_world_blank g s =
     (Inr blank_detail,
      s\<lparr>reqs := reqs s @ [GamesQuery g None 1, GamesQuery g (Some 114) 40, GameById (JNum 7)],
        draws := Suc (Suc (draws s))\<rparr>)"
  by (simp add: getSortedGame_rawg_def rawg_world_blank_def rawg_page_def io_defs rawg_defs Let_def
      maxPage_9001 randomPage_of_def element_def get_prop_def)

lemma gb_valid_attempt:
  "gb_attempt gb_world_valid s =
     (Inr (Some doom),
      s\<lparr>reqs := reqs s @ [GamesReq None ''1'' None ''id'', GamesReq None ''1'' (Some 1) ''guid'',
                            GameReq (JStr ''3030-1'')],
        draws := Suc (draws s)\<rparr>)"
  by (simp add: gb_attempt_def gb_try_def gb_world_valid_def gb_world_of_def gb_window_def io_defs
      gb_defs Let_def element_def get_prop_def gb_valid_def doom_def doom_summary_def)

lemma gb_blank_attempt:
  "gb_attempt gb_world_blank s =
     (Inr None,
      s\<lparr>reqs := reqs s @ [GamesReq None ''1'' None ''id'', GamesReq None ''1'' (Some 1) ''guid'',
                            GameReq (JStr ''3030-1'')],
        draws := Suc (draws s)\<rparr>)"
  by (simp add: gb_attempt_def gb_try_def gb_world_blank_def gb_world_of_def gb_window_def io_defs
      gb_defs Let_def element_def get_prop_def gb_valid_def doom_summary_def)

section \<open>A found game is a valid game\<close>

text \<open>
  C1, as amended. In the two retrying samplers a result that is not null passed the
  validity check: the detail of the random-page sampler has a truthy \<^verbatim>\<open>description_raw\<close>
  (in particular not the empty string), the game of the random-offset sampler has truthy
  \<^verbatim>\<open>name\<close>, \<^verbatim>\<open>image\<close> and \<^verbatim>\<open>image.super_url\<close>. The sampler of \<^verbatim>\<open>src/api/rawg.js\<close>
  has no validity check. A value it returns is null, with no detail request sent, or it is
  the reply to the detail request of this call, the third and last request of the call; and
  whenever the call sends its detail request, the reply \<open>d\<close> to it is the result of the
  call, whatever \<open>d\<close> is.
\<close>

theorem found_game_is_valid:
  "(getSortedGame_retry w genres s = (Inr v, s') \<longrightarrow> v \<noteq> JNull \<longrightarrow>
      truthy v \<and> truthy (field v ''description_raw'') \<and> field v ''description_raw'' \<noteq> JStr []) \<and>
   (getRandomGame gw gs = (Inr g, gs') \<longrightarrow>
      truthy g \<and> truthy (field g ''name'') \<and> truthy (field g ''image'') \<and>
      truthy (field (field g ''image'') ''super_url'') \<and>
      field g ''name'' \<noteq> JStr [] \<and> field (field g ''image'') ''super_url'' \<noteq> JStr []) \<and>
   (getSortedGame_rawg w genres s = (Inr v, s') \<longrightarrow>
      (v = JNull \<and> length (reqs s') < length (reqs s) + 3) \<or>
      (\<exists>page gid.
         reqs s' = reqs s @ [GamesQuery genres None 1, GamesQuery genres (Some page) 40, GameById gid] \<and>
         game_reply w (length (reqs s) + 2) (GameById gid) = Inr v)) \<and>
   (getSortedGame_rawg w genres s = (r, s') \<longrightarrow> reqs s' = reqs s @ [q1, q2, GameById gid] \<longrightarrow>
      game_reply w (length (reqs s) + 2) (GameById gid) = Inr d \<longrightarrow> r = Inr d)"
proof (intro conjI impI)
  assume run: "getSortedGame_retry w genres s = (Inr v, s')" and found: "v \<noteq> JNull"
  from run have "(\<exists>s0. rawg_attempt w genres s0 = (Inr (Some v), s')) \<or>
      (\<exists>s0. return_io JNull s0 = (Inr v, s'))"
    unfolding getSortedGame_retry_def by (rule for_loop_result)
  with found have "rawg_valid v"
    by (auto simp: return_io_def dest: rawg_attempt_some)
  then show "truthy v" "truthy (field v ''description_raw'')" "field v ''description_raw'' \<noteq> JStr []"
    by (auto simp: rawg_valid_def)
next
  assume run: "getRandomGame gw gs = (Inr g, gs')"
  from run have "(\<exists>s0. gb_attempt gw s0 = (Inr (Some g), gs')) \<or>
      (\<exists>s0. throw_io ExhaustedError s0 = (Inr g, gs'))"
    unfolding getRandomGame_def by (rule for_loop_result)
  then have "gb_valid g"
    by (auto simp: throw_io_def dest: gb_attempt_some)
  then show "truthy g" "truthy (field g ''name'')" "truthy (field g ''image'')"
    "truthy (field (field g ''image'') ''super_url'')"
    "field g ''name'' \<noteq> JStr []" "field (field g ''image'') ''super_url'' \<noteq> JStr []"
    by (auto simp: gb_valid_def)
next
  assume "getSortedGame_rawg w genres s = (Inr v, s')"
  then show "(v = JNull \<and> length (reqs s') < length (reqs s) + 3) \<or>
      (\<exists>page gid.
         reqs s' = reqs s @ [GamesQuery genres None 1, GamesQuery genres (Some page) 40, GameById gid] \<and>
         game_reply w (length (reqs s) + 2) (GameById gid) = Inr v)"
    by (rule getSortedGame_rawg_detail)
next
  assume "getSortedGame_rawg w genres s = (r, s')" "reqs s' = reqs s @ [q1, q2, GameById gid]"
    "game_reply w (length (reqs s) + 2) (GameById gid) = Inr d"
  then show "r = Inr d" by (rule getSortedGame_rawg_unchecked)
qed

theorem found_game_is_valid_witness:
  "fst (getSortedGame_retry rawg_world_valid ''4'' start) = Inr tetris \<and> tetris \<noteq> JNull \<and>
   truthy (field tetris ''description_raw'') \<and>
   fst (getRandomGame gb_world_valid start) = Inr doom \<and> truthy (field doom ''name'') \<and>
   truthy (field (field doom ''image'') ''super_url'') \<and>
   reqs (snd (getSortedGame_rawg rawg_world_blank ''4'' start)) =
     [GamesQuery ''4'' None 1, GamesQuery ''4'' (Some 114) 40, GameById (JNum 7)] \<and>
   game_reply rawg_world_blank 2 (GameById (JNum 7)) = Inr blank_detail \<and>
   fst (getSortedGame_rawg rawg_world_blank ''4'' start) = Inr blank_detail"
proof -
  obtain s1 where a: "getSortedGame_retry rawg_world_valid ''4'' start = (Inr tetris, s1)"
    by (simp add: getSortedGame_retry_def MAX_ATTEMPTS_def numeral_eq_Suc rawg_valid_attempt)
  obtain s2 where b: "getRandomGame gb_world_valid start = (Inr doom, s2)"
    by (simp add: getRandomGame_def MAX_ATTEMPTS_def numeral_eq_Suc gb_valid_attempt)
  let ?s3 = "snd (getSortedGame_rawg rawg_world_blank ''4'' start)"
  let ?r3 = "fst (getSortedGame_rawg rawg_world_blank ''4'' start)"
  have c: "reqs ?s3 = reqs (start :: rawg_request trace) @
      [GamesQuery ''4'' None 1, GamesQuery ''4'' (Some 114) 40, GameById (JNum 7)]"
    by (simp add: rawg_blank_once start_def)
  have d: "tetris \<noteq> JNull" by (simp add: tetris_def)
  have e: "game_reply rawg_world_blank (length (reqs (start :: rawg_request trace)) + 2)
      (GameById (JNum 7)) = Inr blank_detail"
    "game_reply rawg_world_blank 2 (GameById (JNum 7)) = Inr blank_detail"
    by (simp_all add: rawg_world_blank_def)
  have run: "getSortedGame_rawg rawg_world_blank ''4'' start = (?r3, ?s3)" by simp
  note inst = found_game_is_valid [where w = rawg_world_valid and genres = "''4''" and s = start
      and v = tetris and s' = s1 and gw = gb_world_valid and gs = start and g = doom and gs' = s2]
  from inst a b d
  have valid: "truthy (field tetris ''description_raw'') \<and> truthy (field doom ''name'') \<and>
      truthy (field (field doom ''image'') ''super_url'')"
    by blast
  from found_game_is_valid [where w = rawg_world_blank and genres = "''4''" and s = start
      and s' = ?s3 and r = ?r3 and d = blank_detail] run c e(1)
  have "?r3 = Inr blank_detail" by blast
  with a b c d e(2) valid show ?thesis by (simp add: start_def)
qed

text \<open>
  C1 as it was stated fails on \<^verbatim>\<open>src/api/rawg.js\<close>: where every detail has the empty
  string as its description, the sampler returns such a detail, and the handler sends it
  with status 200.
\<close>

theorem unchecked_detail_counterexample:
  "fst (getSortedGame_rawg rawg_world_blank ''4'' start) = Inr blank_detail \<and>
   blank_detail \<noteq> JNull \<and>
   field blank_detail ''description_raw'' = JStr [] \<and>
   \<not> rawg_valid blank_detail \<and>
   status (fst (handler_rawg getSortedGame_rawg
      \<lparr>RAPIDAPI_KEY = Some ''key'', RAPIDAPI_HOST = Some ''host''\<rparr> rawg_world_blank game_query start)) = 200"
  by (simp add: rawg_blank_once handler_rawg_def unset_def game_query_def or_empty_def respond_def
      Let_def rawg_valid_def) (simp add: blank_detail_def)

section \<open>The number of remote calls\<close>

text \<open>
  C2, as amended. The count probe stands inside the loop, so each of the five attempts
  sends up to three requests (probe, page or window, detail): an invocation of a retrying
  sampler sends at most \<open>3 * MAX_ATTEMPTS = 15\<close> requests.
\<close>

theorem retry_calls_bound:
  "length (reqs (snd (getSortedGame_retry w genres s))) \<le> length (reqs s) + 3 * MAX_ATTEMPTS \<and>
   length (reqs (snd (getRandomGame gw gs))) \<le> length (reqs gs) + 3 * MAX_ATTEMPTS \<and>
   3 * MAX_ATTEMPTS = 15"
proof (intro conjI)
  show "length (reqs (snd (getSortedGame_retry w genres s))) \<le> length (reqs s) + 3 * MAX_ATTEMPTS"
    unfolding getSortedGame_retry_def
    by (rule for_loop_calls) (simp_all add: rawg_attempt_calls return_io_def)
  show "length (reqs (snd (getRandomGame gw gs))) \<le> length (reqs gs) + 3 * MAX_ATTEMPTS"
    unfolding getRandomGame_def
    by (rule for_loop_calls) (simp_all add: gb_attempt_calls throw_io_def)
  show "3 * MAX_ATTEMPTS = 15" by (simp add: MAX_ATTEMPTS_def)
qed

text \<open>
  The bound \<open>2 * MAX_ATTEMPTS + 1 = 11\<close> of C2 fails: where no detail is valid, both
  samplers send fifteen requests.
\<close>

theorem eleven_calls_counterexample:
  "length (reqs (snd (getSortedGame_retry rawg_world_blank ''4'' start))) = 15 \<and>
   length (reqs (snd (getRandomGame gb_world_blank start))) = 15 \<and>
   \<not> (15::nat) \<le> 2 * MAX_ATTEMPTS + 1"
  by (simp add: getSortedGame_retry_def getRandomGame_def MAX_ATTEMPTS_def numeral_eq_Suc
      rawg_blank_attempt gb_blank_attempt return_io_def throw_io_def start_def)

section \<open>Transport failures\<close>

lemma fail_fast_pure [intro!]:
  "fail_fast F (return_io a)" "fail_fast F (throw_io e)" "fail_fast F (lift_io x)"
  by (simp_all add: fail_fast_def return_io_def throw_io_def lift_io_def)

lemma fail_fast_bind [intro!]:
  assumes m: "fail_fast F m" and f: "\<And>a. fail_fast F (f a)"
  shows "fail_fast F (bind_io m f)"
  unfolding fail_fast_def
proof (intro allI impI)
  fix s r s2
  assume run: "bind_io m f s = (r, s2)"
  obtain r1 s1 where m1: "m s = (r1, s1)" by (cases "m s")
  from m m1 obtain new1 where a1: "reqs s1 = reqs s @ new1"
    and a2: "\<And>j e. j < length new1 \<Longrightarrow> F (length (reqs s) + j) (new1 ! j) = Some e \<Longrightarrow>
               r1 = Inl e \<and> Suc j = length new1"
    unfolding fail_fast_def by blast
  show "\<exists>new. reqs s2 = reqs s @ new \<and>
      (\<forall>j<length new. \<forall>e. F (length (reqs s) + j) (new ! j) = Some e \<longrightarrow>
         r = Inl e \<and> Suc j = length new)"
  proof (cases r1)
    case (Inl e0)
    then have "r = Inl e0" "s2 = s1" using run m1 by (simp_all add: bind_io_def)
    then show ?thesis using a1 a2 Inl by blast
  next
    case (Inr a)
    then have run2: "f a s1 = (r, s2)" using run m1 by (simp add: bind_io_def)
    from f [of a] run2 obtain new2 where b1: "reqs s2 = reqs s1 @ new2"
      and b2: "\<And>j e. j < length new2 \<Longrightarrow> F (length (reqs s1) + j) (new2 ! j) = Some e \<Longrightarrow>
                 r = Inl e \<and> Suc j = length new2"
      unfolding fail_fast_def by blast
    have "\<forall>j<length (new1 @ new2). \<forall>e.
        F (length (reqs s) + j) ((new1 @ new2) ! j) = Some e \<longrightarrow>
        r = Inl e \<and> Suc j = length (new1 @ new2)"
    proof (intro allI impI)
      fix j e
      assume j: "j < length (new1 @ new2)"
        and fl: "F (length (reqs s) + j) ((new1 @ new2) ! j) = Some e"
      show "r = Inl e \<and> Suc j = length (new1 @ new2)"
      proof (cases "j < length new1")
        case True
        with a2 [of j e] fl Inr show ?thesis by (simp add: nth_append)
      next
        case False
        define j' where "j' = j - length new1"
        have lt: "j' < length new2" and sum: "j = length new1 + j'"
          using False j by (simp_all add: j'_def)
        have eq1: "length (reqs s) + j = length (reqs s1) + j'"
          using False a1 by (simp add: j'_def)
        have eq2: "(new1 @ new2) ! j = new2 ! j'"
          using False by (simp add: j'_def nth_append)
        have "F (length (reqs s1) + j') (new2 ! j') = Some e"
          using fl unfolding eq1 eq2 .
        with b2 [of j' e] lt have "r = Inl e \<and> Suc j' = length new2" by blast
        then show ?thesis using sum by simp
      qed
    qed
    moreover have "reqs s2 = reqs s @ (new1 @ new2)" using a1 b1 by simp
    ultimately show ?thesis by blast
  qed
qed

lemma fail_fast_rawg [intro!]:
  "fail_fast (rawg_failure w) (rawgFetch_games w g p z)"
  "fail_fast (rawg_failure w) (rawgFetch_game w gid)"
  "fail_fast (rawg_failure w) (rawg_Math_random w)"
  by (auto simp: fail_fast_def rawg_defs rawg_failure_def split: sum.splits)

lemma fail_fast_gb [intro!]:
  "fail_fast (gb_failure w) (giantbombFetch_games w flt l off fl)"
  "fail_fast (gb_failure w) (giantbombFetch_game w guid)"
  "fail_fast (gb_failure w) (gb_Math_random w)"
  by (auto simp: fail_fast_def gb_defs gb_failure_def split: sum.splits)

lemma fail_fast_rawg_attempt: "fail_fast (rawg_failure w) (rawg_attempt w g)"
  unfolding rawg_attempt_def by (auto simp: Let_def split: option.split)

lemma fail_fast_gb_try: "fail_fast (gb_failure w) (gb_try w)"
  unfolding gb_try_def by (auto simp: Let_def split: option.split)

lemma fail_fast_index:
  assumes ff: "fail_fast F m" and run: "m s = (r, s1)"
    and i: "length (reqs s) \<le> i" "i < length (reqs s1)" and fl: "F i (reqs s1 ! i) = Some e"
  shows "r = Inl e \<and> Suc i = length (reqs s1)"
proof -
  from ff run obtain new where
    n1: "reqs s1 = reqs s @ new" and
    n2: "\<And>j e. j < length new \<Longrightarrow> F (length (reqs s) + j) (new ! j) = Some e \<Longrightarrow>
           r = Inl e \<and> Suc j = length new"
    unfolding fail_fast_def by blast
  define j where "j = i - length (reqs s)"
  have j: "j < length new" "i = length (reqs s) + j" using i n1 by (simp_all add: j_def)
  have "reqs s1 ! i = new ! j" using j n1 by (simp add: nth_append)
  with fl j n2 [of j e] show ?thesis using n1 by simp
qed

lemma fail_fast_prefix:
  "fail_fast F m \<Longrightarrow> m s = (r, s1) \<Longrightarrow> \<exists>new. reqs s1 = reqs s @ new"
  unfolding fail_fast_def by blast

lemma for_loop_trace:
  assumes step: "fail_fast F step"
    and after: "\<And>s. reqs (snd (after s)) = reqs s"
    and run: "for_loop k step after s = (res, s')"
  shows "(\<exists>more. reqs s' = reqs s @ more) \<and>
    (\<forall>i e. length (reqs s) \<le> i \<longrightarrow> i < length (reqs s') \<longrightarrow> F i (reqs s' ! i) = Some e \<longrightarrow>
       res = Inl e \<and> Suc i = length (reqs s'))"
  using run
proof (induction k arbitrary: s)
  case 0
  then have "reqs s' = reqs s" using after [of s] by simp
  then show ?case by simp
next
  case (Suc k)
  obtain r s1 where att: "step s = (r, s1)" by (cases "step s")
  from fail_fast_prefix [OF step att] obtain new where n1: "reqs s1 = reqs s @ new" by blast
  have early: "\<And>i e. length (reqs s) \<le> i \<Longrightarrow> i < length (reqs s1) \<Longrightarrow>
      F i (reqs s1 ! i) = Some e \<Longrightarrow> r = Inl e \<and> Suc i = length (reqs s1)"
    by (rule fail_fast_index [OF step att])
  show ?case
  proof (cases "r = Inr None")
    case False
    then have fin: "res = (case r of Inl e \<Rightarrow> Inl e | Inr v \<Rightarrow> Inr (the v))" "s' = s1"
      using Suc.prems att by (auto split: sum.splits option.splits)
    have "\<And>i e. length (reqs s) \<le> i \<Longrightarrow> i < length (reqs s') \<Longrightarrow>
        F i (reqs s' ! i) = Some e \<Longrightarrow> res = Inl e \<and> Suc i = length (reqs s')"
      using early fin by fastforce
    then show ?thesis using n1 fin by blast
  next
    case True
    then have rest: "for_loop k step after s1 = (res, s')" using Suc.prems att by simp
    from Suc.IH [OF rest] obtain more where
      m1: "reqs s' = reqs s1 @ more" and
      m2: "\<And>i e. length (reqs s1) \<le> i \<Longrightarrow> i < length (reqs s') \<Longrightarrow>
             F i (reqs s' ! i) = Some e \<Longrightarrow> res = Inl e \<and> Suc i = length (reqs s')"
      by blast
    have "\<And>i e. length (reqs s) \<le> i \<Longrightarrow> i < length (reqs s') \<Longrightarrow>
        F i (reqs s' ! i) = Some e \<Longrightarrow> res = Inl e \<and> Suc i = length (reqs s')"
    proof -
      fix i e
      assume a: "length (reqs s) \<le> i" "i < length (reqs s')" "F i (reqs s' ! i) = Some e"
      show "res = Inl e \<and> Suc i = length (reqs s')"
      proof (cases "i < length (reqs s1)")
        case True
        then have "reqs s' ! i = reqs s1 ! i" using m1 by (simp add: nth_append)
        with early [of i e] a True \<open>r = Inr None\<close> show ?thesis by simp
      next
        case False
        then show ?thesis using m2 [of i e] a by simp
      qed
    qed
    moreover have "reqs s' = reqs s @ (new @ more)" using n1 m1 by simp
    ultimately show ?thesis by blast
  qed
qed


lemma for_loop_all_fail:
  "all_fail k step s \<Longrightarrow> \<exists>s'. for_loop k step after s = after s'"
proof (induction k arbitrary: s)
  case 0
  then show ?case by auto
next
  case (Suc k)
  then show ?case by (auto split: prod.splits sum.splits option.splits)
qed

lemma getRandomGame_error:
  assumes "getRandomGame w s = (Inl e, s')"
  shows "e = ExhaustedError"
proof -
  from assms have "(\<exists>s0. gb_attempt w s0 = (Inl e, s')) \<or>
      (\<exists>s0. throw_io ExhaustedError s0 = (Inl e :: exn + json, s'))"
    unfolding getRandomGame_def by (rule for_loop_error)
  then show ?thesis by (auto simp: gb_attempt_no_throw throw_io_def)
qed

lemma getRandomGame_value:
  assumes "getRandomGame w s = (Inr v, s')"
  shows "gb_valid v"
proof -
  from assms have "(\<exists>s0. gb_attempt w s0 = (Inr (Some v), s')) \<or>
      (\<exists>s0. throw_io ExhaustedError s0 = (Inr v, s'))"
    unfolding getRandomGame_def by (rule for_loop_result)
  then show ?thesis by (auto simp: throw_io_def dest: gb_attempt_some)
qed

subsection \<open>More scenarios, one attempt at a time\<close>

lemma rawg_flaky_attempt:
  "reqs s = [] \<Longrightarrow> rawg_attempt rawg_world_flaky g s =
     (Inl (UpstreamError ''Service Unavailable''), s\<lparr>reqs := [GamesQuery g None 1]\<rparr>)"
  by (simp add: rawg_attempt_def rawg_world_flaky_def io_defs rawg_defs)

lemma gb_flaky_first:
  "reqs s = [] \<Longrightarrow> gb_try gb_world_flaky s =
     (Inl (UpstreamError ''Service Unavailable''), s\<lparr>reqs := [GamesReq None ''1'' None ''id'']\<rparr>)"
  by (simp add: gb_try_def gb_world_flaky_def gb_world_of_def io_defs gb_defs)

lemma gb_flaky_caught:
  "reqs s = [] \<Longrightarrow> gb_attempt gb_world_flaky s =
     (Inr None, s\<lparr>reqs := [GamesReq None ''1'' None ''id'']\<rparr>)"
  by (simp add: gb_attempt_def gb_flaky_first catch_io_def return_io_def)

lemma gb_flaky_later:
  "reqs s \<noteq> [] \<Longrightarrow> gb_attempt gb_world_flaky s =
     (Inr (Some doom),
      s\<lparr>reqs := reqs s @ [GamesReq None ''1'' None ''id'', GamesReq None ''1'' (Some 1) ''guid'',
                            GameReq (JStr ''3030-1'')],
        draws := Suc (draws s)\<rparr>)"
  by (simp add: gb_attempt_def gb_try_def gb_world_flaky_def gb_world_of_def gb_window_def io_defs
      gb_defs Let_def element_def get_prop_def gb_valid_def doom_def doom_summary_def)

lemma gb_zero_first_first:
  "reqs s = [] \<Longrightarrow> gb_attempt gb_world_zero_first s =
     (Inr None, s\<lparr>reqs := [GamesReq None ''1'' None ''id'']\<rparr>)"
  by (simp add: gb_attempt_def gb_try_def gb_world_zero_first_def gb_world_of_def gb_window_def
      io_defs gb_defs)

lemma gb_zero_first_later:
  "reqs s \<noteq> [] \<Longrightarrow> gb_attempt gb_world_zero_first s =
     (Inr (Some doom),
      s\<lparr>reqs := reqs s @ [GamesReq None ''1'' None ''id'', GamesReq None ''1'' (Some 1) ''guid'',
                            GameReq (JStr ''3030-1'')],
        draws := Suc (draws s)\<rparr>)"
  by (simp add: gb_attempt_def gb_try_def gb_world_zero_first_def gb_world_of_def gb_window_def
      io_defs gb_defs Let_def element_def get_prop_def gb_valid_def doom_def doom_summary_def)

lemma gb_zero_attempt:
  "gb_attempt gb_world_zero s = (Inr None, s\<lparr>reqs := reqs s @ [GamesReq None ''1'' None ''id'']\<rparr>)"
  by (simp add: gb_attempt_def gb_try_def gb_world_zero_def gb_world_of_def gb_window_def
      io_defs gb_defs)

text \<open>
  C3, as amended: the two policies are the other way round. The retrying random-page
  sampler (\<^verbatim>\<open>getSortedGame\<close>) has no \<^verbatim>\<open>try\<close>: the first failed request of an
  invocation is its last request, and its error is the exception of the whole call. In the
  random-offset sampler (\<^verbatim>\<open>getRandomGame\<close>) a failed request ends the \<^verbatim>\<open>try\<close> block of
  its attempt; the \<^verbatim>\<open>catch\<close> turns this into a failed attempt and the loop goes on with
  the budget that is left. The call never throws the error of a failed request.
\<close>

theorem transport_failure_policy:
  "(getSortedGame_retry w genres s = (res, s') \<longrightarrow>
      length (reqs s) \<le> i \<longrightarrow> i < length (reqs s') \<longrightarrow>
      rawg_failure w i (reqs s' ! i) = Some e \<longrightarrow>
      res = Inl e \<and> Suc i = length (reqs s')) \<and>
   (gb_try gw gs = (r, gs1) \<longrightarrow>
      length (reqs gs) \<le> j \<longrightarrow> j < length (reqs gs1) \<longrightarrow>
      gb_failure gw j (reqs gs1 ! j) = Some e' \<longrightarrow>
      r = Inl e' \<and> Suc j = length (reqs gs1) \<and> gb_attempt gw gs = (Inr None, gs1) \<and>
      for_loop (Suc k) (gb_attempt gw) after gs = for_loop k (gb_attempt gw) after gs1) \<and>
   fst (getRandomGame gw gs) \<noteq> Inl (UpstreamError m)"
proof (intro conjI impI)
  assume run: "getSortedGame_retry w genres s = (res, s')"
    and i: "length (reqs s) \<le> i" "i < length (reqs s')"
    and fl: "rawg_failure w i (reqs s' ! i) = Some e"
  have loop: "for_loop MAX_ATTEMPTS (rawg_attempt w genres) (return_io JNull) s = (res, s')"
    using run by (simp add: getSortedGame_retry_def)
  have "\<forall>i e. length (reqs s) \<le> i \<longrightarrow> i < length (reqs s') \<longrightarrow>
      rawg_failure w i (reqs s' ! i) = Some e \<longrightarrow> res = Inl e \<and> Suc i = length (reqs s')"
    using for_loop_trace [OF fail_fast_rawg_attempt _ loop] by (simp add: return_io_def)
  with i fl show "res = Inl e" "Suc i = length (reqs s')" by blast+
next
  assume run: "gb_try gw gs = (r, gs1)"
    and j: "length (reqs gs) \<le> j" "j < length (reqs gs1)"
    and fl: "gb_failure gw j (reqs gs1 ! j) = Some e'"
  have thrown: "r = Inl e' \<and> Suc j = length (reqs gs1)"
    by (rule fail_fast_index [OF fail_fast_gb_try run j fl])
  then show "r = Inl e'" "Suc j = length (reqs gs1)" by simp_all
  show caught: "gb_attempt gw gs = (Inr None, gs1)"
    using run thrown by (simp add: gb_attempt_def catch_io_def return_io_def)
  show "for_loop (Suc k) (gb_attempt gw) after gs = for_loop k (gb_attempt gw) after gs1"
    using caught by simp
next
  show "fst (getRandomGame gw gs) \<noteq> Inl (UpstreamError m)"
  proof
    assume "fst (getRandomGame gw gs) = Inl (UpstreamError m)"
    then obtain s' where "getRandomGame gw gs = (Inl (UpstreamError m), s')"
      by (cases "getRandomGame gw gs") simp
    then have "UpstreamError m = ExhaustedError" by (rule getRandomGame_error)
    then show False by simp
  qed
qed

theorem transport_failure_policy_witness:
  "getSortedGame_retry rawg_world_flaky ''4'' start =
     (Inl (UpstreamError ''Service Unavailable''), start\<lparr>reqs := [GamesQuery ''4'' None 1]\<rparr>) \<and>
   rawg_failure rawg_world_flaky 0 (GamesQuery ''4'' None 1) = Some (UpstreamError ''Service Unavailable'') \<and>
   gb_try gb_world_flaky start =
     (Inl (UpstreamError ''Service Unavailable''), start\<lparr>reqs := [GamesReq None ''1'' None ''id'']\<rparr>) \<and>
   gb_failure gb_world_flaky 0 (GamesReq None ''1'' None ''id'') = Some (UpstreamError ''Service Unavailable'') \<and>
   gb_attempt gb_world_flaky start = (Inr None, start\<lparr>reqs := [GamesReq None ''1'' None ''id'']\<rparr>)"
proof -
  let ?e = "UpstreamError ''Service Unavailable''"
  have a: "getSortedGame_retry rawg_world_flaky ''4'' start =
      (Inl ?e, start\<lparr>reqs := [GamesQuery ''4'' None 1]\<rparr>)"
    by (simp add: getSortedGame_retry_def MAX_ATTEMPTS_def numeral_eq_Suc rawg_flaky_attempt start_def)
  have b: "rawg_failure rawg_world_flaky 0 (GamesQuery ''4'' None 1) = Some ?e"
    by (simp add: rawg_failure_def rawg_world_flaky_def)
  have c: "gb_try gb_world_flaky start = (Inl ?e, start\<lparr>reqs := [GamesReq None ''1'' None ''id'']\<rparr>)"
    by (simp add: gb_flaky_first start_def)
  have d: "gb_failure gb_world_flaky 0 (GamesReq None ''1'' None ''id'') = Some ?e"
    by (simp add: gb_failure_def gb_world_flaky_def gb_world_of_def)
  have idx: "length (reqs (start :: rawg_request trace)) \<le> 0"
    "0 < length (reqs (start\<lparr>reqs := [GamesQuery ''4'' None 1]\<rparr>))"
    "reqs (start\<lparr>reqs := [GamesQuery ''4'' None 1]\<rparr>) ! 0 = GamesQuery ''4'' None 1"
    "length (reqs (start :: gb_request trace)) \<le> 0"
    "0 < length (reqs (start\<lparr>reqs := [GamesReq None ''1'' None ''id'']\<rparr>))"
    "reqs (start\<lparr>reqs := [GamesReq None ''1'' None ''id'']\<rparr>) ! 0 = GamesReq None ''1'' None ''id''"
    by (simp_all add: start_def)
  from transport_failure_policy [of rawg_world_flaky "''4''" start "Inl ?e"
      "start\<lparr>reqs := [GamesQuery ''4'' None 1]\<rparr>" 0 ?e gb_world_flaky start "Inl ?e"
      "start\<lparr>reqs := [GamesReq None ''1'' None ''id'']\<rparr>" 0 ?e]
    a b c d idx
  have "gb_attempt gb_world_flaky start = (Inr None, start\<lparr>reqs := [GamesReq None ''1'' None ''id'']\<rparr>)"
    by simp
  with a b c d show ?thesis by simp
qed

text \<open>
  C3 as it was stated fails in both halves. The first request of \<^verbatim>\<open>getRandomGame\<close> fails
  and the call still returns a game, found by the second attempt; the first request of the
  retrying \<^verbatim>\<open>getSortedGame\<close> fails and the call throws at once, after this one request.
\<close>

theorem failure_policy_counterexample:
  "gb_failure gb_world_flaky 0 (GamesReq None ''1'' None ''id'') = Some (UpstreamError ''Service Unavailable'') \<and>
   fst (getRandomGame gb_world_flaky start) = Inr doom \<and>
   length (reqs (snd (getRandomGame gb_world_flaky start))) = 4 \<and>
   rawg_failure rawg_world_flaky 0 (GamesQuery ''4'' None 1) = Some (UpstreamError ''Service Unavailable'') \<and>
   fst (getSortedGame_retry rawg_world_flaky ''4'' start) = Inl (UpstreamError ''Service Unavailable'') \<and>
   length (reqs (snd (getSortedGame_retry rawg_world_flaky ''4'' start))) = 1"
proof -
  have "gb_failure gb_world_flaky 0 (GamesReq None ''1'' None ''id'') =
      Some (UpstreamError ''Service Unavailable'')"
    by (simp add: gb_failure_def gb_world_flaky_def gb_world_of_def)
  moreover have "rawg_failure rawg_world_flaky 0 (GamesQuery ''4'' None 1) =
      Some (UpstreamError ''Service Unavailable'')"
    by (simp add: rawg_failure_def rawg_world_flaky_def)
  moreover have "fst (getRandomGame gb_world_flaky start) = Inr doom \<and>
      length (reqs (snd (getRandomGame gb_world_flaky start))) = 4"
    by (simp add: getRandomGame_def MAX_ATTEMPTS_def numeral_eq_Suc gb_flaky_caught
        gb_flaky_later start_def)
  moreover have "fst (getSortedGame_retry rawg_world_flaky ''4'' start) =
      Inl (UpstreamError ''Service Unavailable'') \<and>
      length (reqs (snd (getSortedGame_retry rawg_world_flaky ''4'' start))) = 1"
    by (simp add: getSortedGame_retry_def MAX_ATTEMPTS_def numeral_eq_Suc rawg_flaky_attempt
        start_def)
  ultimately show ?thesis by simp
qed

section \<open>An exhausted retry budget\<close>

lemma handler_rawg_null:
  assumes "fst (sampler w (or_empty (q ''genres'')) s) = Inr JNull"
    and "\<not> unset (RAPIDAPI_KEY env)" "\<not> unset (RAPIDAPI_HOST env)"
    and "q ''resource'' = Some ''game''"
  shows "fst (handler_rawg sampler env w q s) =
     respond 404 (Some ''no-cache, no-store, must-revalidate'') (Message NoResult)"
  using assms by (cases "sampler w (or_empty (q ''genres'')) s") (simp add: handler_rawg_def Let_def)

lemma handler_random_error:
  assumes "fst (getRandomGame w s) = Inl e" and "\<not> unset key"
    and "q ''resource'' = Some ''random-game''"
  shows "fst (handler_random key w q s) = respond 500 None (Message (ErrorMessage e))"
  using assms by (cases "getRandomGame w s") (simp add: handler_random_def Let_def)

text \<open>
  C4. When all five attempts fall through, the retrying \<^verbatim>\<open>getSortedGame\<close> returns null,
  and its handler answers a null result with 404 and the no-result message whatever the
  reason for the null was (an exhausted budget or a zero count). \<^verbatim>\<open>getRandomGame\<close>
  throws the exhaustion error instead, which its handler answers with 500 and the error's
  message; it never returns null.
\<close>

theorem exhaustion_outcomes:
  "(all_fail MAX_ATTEMPTS (rawg_attempt w genres) s \<longrightarrow>
      fst (getSortedGame_retry w genres s) = Inr JNull) \<and>
   (fst (getSortedGame_retry w (or_empty (q ''genres'')) s) = Inr JNull \<longrightarrow>
      \<not> unset (RAPIDAPI_KEY env) \<longrightarrow> \<not> unset (RAPIDAPI_HOST env) \<longrightarrow>
      q ''resource'' = Some ''game'' \<longrightarrow>
      fst (handler_rawg getSortedGame_retry env w q s) =
        respond 404 (Some ''no-cache, no-store, must-revalidate'') (Message NoResult)) \<and>
   (all_fail MAX_ATTEMPTS (gb_attempt gw) gs \<longrightarrow>
      fst (getRandomGame gw gs) = Inl ExhaustedError) \<and>
   (fst (getRandomGame gw gs) = Inl ExhaustedError \<longrightarrow>
      \<not> unset key \<longrightarrow> gq ''resource'' = Some ''random-game'' \<longrightarrow>
      fst (handler_random key gw gq gs) = respond 500 None (Message (ErrorMessage ExhaustedError))) \<and>
   fst (getRandomGame gw gs) \<noteq> Inr JNull"
proof (intro conjI impI)
  assume "all_fail MAX_ATTEMPTS (rawg_attempt w genres) s"
  then obtain s' where "getSortedGame_retry w genres s = return_io JNull s'"
    unfolding getSortedGame_retry_def using for_loop_all_fail by blast
  then show "fst (getSortedGame_retry w genres s) = Inr JNull"
    by (simp add: return_io_def)
next
  assume "fst (getSortedGame_retry w (or_empty (q ''genres'')) s) = Inr JNull"
    "\<not> unset (RAPIDAPI_KEY env)" "\<not> unset (RAPIDAPI_HOST env)" "q ''resource'' = Some ''game''"
  then show "fst (handler_rawg getSortedGame_retry env w q s) =
      respond 404 (Some ''no-cache, no-store, must-revalidate'') (Message NoResult)"
    by (rule handler_rawg_null)
next
  assume "all_fail MAX_ATTEMPTS (gb_attempt gw) gs"
  then obtain s' where "getRandomGame gw gs = throw_io ExhaustedError s'"
    unfolding getRandomGame_def using for_loop_all_fail by blast
  then show "fst (getRandomGame gw gs) = Inl ExhaustedError"
    by (simp add: throw_io_def)
next
  assume "fst (getRandomGame gw gs) = Inl ExhaustedError" "\<not> unset key"
    "gq ''resource'' = Some ''random-game''"
  then show "fst (handler_random key gw gq gs) =
      respond 500 None (Message (ErrorMessage ExhaustedError))"
    by (rule handler_random_error)
next
  show "fst (getRandomGame gw gs) \<noteq> Inr JNull"
  proof
    assume "fst (getRandomGame gw gs) = Inr JNull"
    then obtain s' where "getRandomGame gw gs = (Inr JNull, s')"
      by (cases "getRandomGame gw gs") simp
    then have "gb_valid JNull" by (rule getRandomGame_value)
    then show False by (simp add: gb_valid_def)
  qed
qed

theorem exhaustion_outcomes_witness:
  "all_fail MAX_ATTEMPTS (rawg_attempt rawg_world_blank []) start \<and>
   fst (getSortedGame_retry rawg_world_blank [] start) = Inr JNull \<and>
   fst (handler_rawg getSortedGame_retry \<lparr>RAPIDAPI_KEY = Some ''key'', RAPIDAPI_HOST = Some ''host''\<rparr>
          rawg_world_blank game_query start) =
     respond 404 (Some ''no-cache, no-store, must-revalidate'') (Message NoResult) \<and>
   all_fail MAX_ATTEMPTS (gb_attempt gb_world_blank) start \<and>
   fst (getRandomGame gb_world_blank start) = Inl ExhaustedError \<and>
   fst (handler_random (Some ''key'') gb_world_blank (\<lambda>k. Some ''random-game'') start) =
     respond 500 None (Message (ErrorMessage ExhaustedError))"
proof -
  let ?env = "\<lparr>RAPIDAPI_KEY = Some ''key'', RAPIDAPI_HOST = Some ''host''\<rparr>"
  let ?gq = "\<lambda>k::string. Some ''random-game''"
  have a: "all_fail MAX_ATTEMPTS (rawg_attempt rawg_world_blank []) start"
    by (simp add: MAX_ATTEMPTS_def numeral_eq_Suc rawg_blank_attempt)
  have b: "all_fail MAX_ATTEMPTS (gb_attempt gb_world_blank) start"
    by (simp add: MAX_ATTEMPTS_def numeral_eq_Suc gb_blank_attempt)
  have c: "or_empty (game_query ''genres'') = []" "\<not> unset (RAPIDAPI_KEY ?env)"
    "\<not> unset (RAPIDAPI_HOST ?env)" "game_query ''resource'' = Some ''game''"
    "\<not> unset (Some ''key'')" "?gq ''resource'' = Some ''random-game''"
    by (simp_all add: or_empty_def game_query_def unset_def)
  note inst = exhaustion_outcomes [of rawg_world_blank "[]" start game_query ?env
      gb_world_blank start "Some ''key''" ?gq]
  from inst a have d: "fst (getSortedGame_retry rawg_world_blank [] start) = Inr JNull"
    by blast
  from inst b have e: "fst (getRandomGame gb_world_blank start) = Inl ExhaustedError"
    by blast
  from inst c d have f: "fst (handler_rawg getSortedGame_retry ?env rawg_world_blank game_query start) =
      respond 404 (Some ''no-cache, no-store, must-revalidate'') (Message NoResult)"
    by simp
  from inst c e have g: "fst (handler_random (Some ''key'') gb_world_blank ?gq start) =
      respond 500 None (Message (ErrorMessage ExhaustedError))"
    by simp
  from a b d e f g show ?thesis by simp
qed

section \<open>A count of zero\<close>

lemma rawg_attempt_zero:
  assumes "games_reply w (length (reqs s)) (GamesQuery genres None 1) = Inr (Some search)"
    and "count search = 0"
  shows "rawg_attempt w genres s =
     (Inr (Some JNull), s\<lparr>reqs := reqs s @ [GamesQuery genres None 1]\<rparr>)"
  using assms by (simp add: rawg_attempt_def io_defs rawg_defs)

text \<open>
  C5. When the count probe reports zero games, both random-page samplers return null at
  once: the trace afterwards is the trace before with the probe as the only new request
  (no page request, no detail request) and with no random value drawn. In the retrying
  sampler this holds for the probe of any iteration, whatever budget \<open>Suc k\<close> is left.
\<close>

theorem zero_count_returns_null:
  assumes "games_reply w (length (reqs s)) (GamesQuery genres None 1) = Inr (Some search)"
    and "count search = 0"
  shows "getSortedGame_retry w genres s =
           (Inr JNull, s\<lparr>reqs := reqs s @ [GamesQuery genres None 1]\<rparr>) \<and>
         for_loop (Suc k) (rawg_attempt w genres) (return_io JNull) s =
           (Inr JNull, s\<lparr>reqs := reqs s @ [GamesQuery genres None 1]\<rparr>) \<and>
         getSortedGame_rawg w genres s =
           (Inr JNull, s\<lparr>reqs := reqs s @ [GamesQuery genres None 1]\<rparr>)"
proof (intro conjI)
  show "for_loop (Suc k) (rawg_attempt w genres) (return_io JNull) s =
      (Inr JNull, s\<lparr>reqs := reqs s @ [GamesQuery genres None 1]\<rparr>)" for k
    by (simp add: rawg_attempt_zero [OF assms])
  then show "getSortedGame_retry w genres s =
      (Inr JNull, s\<lparr>reqs := reqs s @ [GamesQuery genres None 1]\<rparr>)"
    by (simp add: getSortedGame_retry_def MAX_ATTEMPTS_def numeral_eq_Suc)
  show "getSortedGame_rawg w genres s =
      (Inr JNull, s\<lparr>reqs := reqs s @ [GamesQuery genres None 1]\<rparr>)"
    using assms by (simp add: getSortedGame_rawg_def io_defs rawg_defs)
qed

theorem zero_count_returns_null_witness:
  "games_reply rawg_world_zero 0 (GamesQuery ''4'' None 1) = Inr (Some \<lparr>count = 0, results = Some []\<rparr>) \<and>
   getSortedGame_retry rawg_world_zero ''4'' start = (Inr JNull, \<lparr>reqs = [GamesQuery ''4'' None 1], draws = 0\<rparr>) \<and>
   getSortedGame_rawg rawg_world_zero ''4'' start = (Inr JNull, \<lparr>reqs = [GamesQuery ''4'' None 1], draws = 0\<rparr>)"
proof -
  have a: "games_reply rawg_world_zero (length (reqs (start :: rawg_request trace)))
      (GamesQuery ''4'' None 1) = Inr (Some \<lparr>count = 0, results = Some []\<rparr>)"
    by (simp add: rawg_world_zero_def)
  have b: "count \<lparr>count = 0, results = Some []\<rparr> = 0" by simp
  from zero_count_returns_null [OF a b, of 0] a show ?thesis
    by (simp add: start_def)
qed

section \<open>The page number\<close>

lemma randomPage_range:
  assumes "0 < c" "is_double r" "0 \<le> r" "r < 1"
  shows "1 \<le> randomPage_of r (maxPage_of c) \<and> randomPage_of r (maxPage_of c) \<le> maxPage_of c"
proof -
  have pos: "0 < maxPage_of c" using maxPage_positive [OF assms(1)] by simp
  have "maxPage_of c \<le> 250" by (simp add: maxPage_div)
  then have "maxPage_of c \<le> 2 ^ 53" by simp
  from random_floor_range [OF assms(2,3,4) pos this] show ?thesis
    by (simp add: randomPage_of_def)
qed

lemma rawg_attempt_page:
  assumes "games_reply w (length (reqs s)) (GamesQuery genres None 1) = Inr (Some search)"
    and "count search \<noteq> 0"
  shows "Suc (length (reqs s)) < length (reqs (snd (rawg_attempt w genres s))) \<and>
     reqs (snd (rawg_attempt w genres s)) ! Suc (length (reqs s)) =
       GamesQuery genres (Some (randomPage_of (rawg_random w (draws s)) (maxPage_of (count search)))) 40"
  using assms
  by (auto simp: rawg_attempt_def io_defs rawg_defs Let_def nth_append
      split: sum.splits option.splits if_splits prod.splits)

lemma getSortedGame_rawg_page:
  assumes "games_reply w (length (reqs s)) (GamesQuery genres None 1) = Inr (Some search)"
    and "count search \<noteq> 0"
  shows "Suc (length (reqs s)) < length (reqs (snd (getSortedGame_rawg w genres s))) \<and>
     reqs (snd (getSortedGame_rawg w genres s)) ! Suc (length (reqs s)) =
       GamesQuery genres (Some (randomPage_of (rawg_random w (draws s)) (maxPage_of (count search)))) 40"
  using assms
  by (auto simp: getSortedGame_rawg_def io_defs rawg_defs Let_def nth_append
      split: sum.splits option.splits if_splits prod.splits)

text \<open>
  The double nearest to 0.7 shows the rounding of the product: ten times this double is
  a little less than 7, the nearest double is 7 (a tie, which goes to the even significand),
  so \<^verbatim>\<open>Math.floor(Math.random() * 10)\<close> is 7 where the floor of the exact product is 6.
\<close>

lemma seven_tenths_double: "is_double seven_tenths"
proof -
  have "2 powi (- 53 + 52) \<le> seven_tenths" "seven_tenths < 2 powi (- 53 + 53)"
    by (simp_all add: seven_tenths_def)
  then have e: "exponent seven_tenths = - 53" by (intro exponent_unique) simp_all
  have "seven_tenths / 2 powi exponent seven_tenths = of_int 6305039478318694"
    unfolding e by (simp add: seven_tenths_def)
  then have "round_magnitude seven_tenths = seven_tenths" by (rule round_magnitude_exact)
  moreover have "\<not> seven_tenths < 0" by (simp add: seven_tenths_def)
  ultimately show ?thesis by (simp add: is_double_def round_double_def)
qed

lemma seven_tenths_times_ten:
  "random_floor seven_tenths 10 = 7" "\<lfloor>seven_tenths * 10\<rfloor> = 6"
proof -
  let ?x = "seven_tenths * of_int 10"
  have x: "?x = 15762598695796735 / 2251799813685248" by (simp add: seven_tenths_def)
  have "2 powi (- 50 + 52) \<le> ?x" "?x < 2 powi (- 50 + 53)"
    unfolding x by simp_all
  then have e: "exponent ?x = - 50" by (intro exponent_unique) simp_all
  have q: "?x / 2 powi (- 50) = 15762598695796735 / 2"
    unfolding x by simp
  have f: "\<lfloor>15762598695796735 / 2 :: rat\<rfloor> = 7881299347898367"
    using floor_divide_of_int_eq [of 15762598695796735 2, where ?'a = rat] by simp
  have h: "round_half_even (15762598695796735 / 2) = 7881299347898368"
    unfolding round_half_even_def Let_def f by simp
  have "round_magnitude ?x = 7"
    unfolding round_magnitude_def e q h by simp
  moreover have "\<not> ?x < 0" unfolding x by simp
  ultimately show "random_floor seven_tenths 10 = 7"
    by (simp add: random_floor_def round_double_def)
  have y: "seven_tenths * 10 = 15762598695796735 / 2251799813685248"
    by (simp add: seven_tenths_def)
  have "\<lfloor>15762598695796735 / 2251799813685248 :: rat\<rfloor> = 6"
    using floor_divide_of_int_eq [of 15762598695796735 2251799813685248, where ?'a = rat] by simp
  then show "\<lfloor>seven_tenths * 10\<rfloor> = 6" unfolding y .
qed

text \<open>
  C6. For a positive count, \<open>maxPage\<close> is the number of pages of forty, rounded up and
  capped at 250: 226 for 9001 games, 250 for 500000. When \<^verbatim>\<open>Math.random()\<close> returns a
  double in \<open>[0, 1)\<close>, the page drawn, \<^verbatim>\<open>Math.floor(Math.random() * maxPage) + 1\<close> with the
  product rounded as doubles are, lies between 1 and \<open>maxPage\<close>, and it is the page that the
  second request of the sampler (of either revision) asks for, with \<open>page_size\<close> 40.
\<close>

theorem page_within_maxPage:
  assumes "games_reply w (length (reqs s)) (GamesQuery genres None 1) = Inr (Some search)"
    and "0 < count search"
    and "is_double (rawg_random w (draws s))"
    and "0 \<le> rawg_random w (draws s)" and "rawg_random w (draws s) < 1"
  shows "\<exists>maxPage page.
      maxPage = maxPage_of (count search) \<and>
      maxPage = min 250 ((count search + 39) div 40) \<and>
      page = randomPage_of (rawg_random w (draws s)) maxPage \<and>
      1 \<le> page \<and> page \<le> maxPage \<and>
      Suc (length (reqs s)) < length (reqs (snd (rawg_attempt w genres s))) \<and>
      reqs (snd (rawg_attempt w genres s)) ! Suc (length (reqs s)) = GamesQuery genres (Some page) 40 \<and>
      Suc (length (reqs s)) < length (reqs (snd (getSortedGame_rawg w genres s))) \<and>
      reqs (snd (getSortedGame_rawg w genres s)) ! Suc (length (reqs s)) = GamesQuery genres (Some page) 40 \<and>
      maxPage_of 9001 = 226 \<and> maxPage_of 500000 = 250"
proof -
  have nz: "count search \<noteq> 0" using assms(2) by simp
  have "maxPage_of 9001 = 226" "maxPage_of 500000 = 250"
    by (simp_all add: maxPage_div)
  then show ?thesis
    using randomPage_range [OF assms(2,3,4,5)] rawg_attempt_page [OF assms(1) nz]
      getSortedGame_rawg_page [OF assms(1) nz] maxPage_div [of "count search"]
    by simp
qed

theorem page_within_maxPage_witness:
  "games_reply rawg_world_valid 0 (GamesQuery ''4'' None 1) = Inr (rawg_page 9001) \<and>
   maxPage_of 9001 = 226 \<and> is_double (1 / 2) \<and> randomPage_of (1 / 2) 226 = 114 \<and>
   reqs (snd (rawg_attempt rawg_world_valid ''4'' start)) ! 1 = GamesQuery ''4'' (Some 114) 40 \<and>
   games_reply rawg_world_rounding 0 (GamesQuery ''4'' None 1) = Inr (rawg_page 400) \<and>
   maxPage_of 400 = 10 \<and> is_double seven_tenths \<and> randomPage_of seven_tenths 10 = 8 \<and>
   reqs (snd (rawg_attempt rawg_world_rounding ''4'' start)) ! 1 = GamesQuery ''4'' (Some 8) 40"
proof -
  let ?start = "start :: rawg_request trace"
  have a: "games_reply rawg_world_valid (length (reqs ?start))
      (GamesQuery ''4'' None 1) = Inr (Some \<lparr>count = 9001, results = Some [JObj [(''id'', JNum 7)]]\<rparr>)"
    by (simp add: rawg_world_valid_def rawg_page_def)
  have b: "0 < count \<lparr>count = 9001, results = Some [JObj [(''id'', JNum 7)]]\<rparr>" by simp
  have r: "rawg_random rawg_world_valid n = 1 / 2" for n
    by (simp add: rawg_world_valid_def)
  have c: "is_double (rawg_random rawg_world_valid (draws ?start))"
    "0 \<le> rawg_random rawg_world_valid (draws ?start)"
    "rawg_random rawg_world_valid (draws ?start) < 1"
    unfolding r by (simp_all add: half_is_double)
  have d: "randomPage_of (1 / 2) 226 = 114" by (simp add: randomPage_of_def)
  from page_within_maxPage [OF a b c]
  have one: "maxPage_of 9001 = 226 \<and>
      reqs (snd (rawg_attempt rawg_world_valid ''4'' start)) ! 1 = GamesQuery ''4'' (Some 114) 40"
    by (simp add: start_def r d)
  have a': "games_reply rawg_world_rounding (length (reqs ?start))
      (GamesQuery ''4'' None 1) = Inr (Some \<lparr>count = 400, results = Some [JObj [(''id'', JNum 7)]]\<rparr>)"
    by (simp add: rawg_world_rounding_def rawg_page_def)
  have b': "0 < count \<lparr>count = 400, results = Some [JObj [(''id'', JNum 7)]]\<rparr>" by simp
  have r': "rawg_random rawg_world_rounding n = seven_tenths" for n
    by (simp add: rawg_world_rounding_def)
  have c': "is_double (rawg_random rawg_world_rounding (draws ?start))"
    "0 \<le> rawg_random rawg_world_rounding (draws ?start)"
    "rawg_random rawg_world_rounding (draws ?start) < 1"
    unfolding r' by (simp_all add: seven_tenths_double) (simp_all add: seven_tenths_def)
  have m': "maxPage_of 400 = 10" by (simp add: maxPage_div)
  have d': "randomPage_of seven_tenths 10 = 8"
    by (simp add: randomPage_of_def seven_tenths_times_ten)
  from page_within_maxPage [OF a' b' c']
  have two: "reqs (snd (rawg_attempt rawg_world_rounding ''4'' start)) ! 1 =
      GamesQuery ''4'' (Some 8) 40"
    by (simp add: start_def r' m' d')
  from one two a a' d d' m' show ?thesis
    by (simp add: rawg_page_def start_def half_is_double seven_tenths_double)
qed

section \<open>A zero total in the random-offset sampler\<close>

lemma gb_try_zero:
  assumes "gb_games_reply gw (length (reqs gs)) (GamesReq None ''1'' None ''id'') = Inr (Some cd)"
    and "number_of_total_results cd = 0"
  shows "gb_try gw gs = (Inl NoGamesError, gs\<lparr>reqs := reqs gs @ [GamesReq None ''1'' None ''id'']\<rparr>)"
  using assms by (simp add: gb_try_def io_defs gb_defs)

text \<open>
  C7, as amended. When the probe of an attempt reports a total of zero, the \<^verbatim>\<open>try\<close> block
  throws the no-games error after this one request; the \<^verbatim>\<open>catch\<close> of the loop swallows
  it as it does every error, the attempt counts as failed, and the loop goes on with the
  budget that is left, probing again. The error never reaches the caller: the only error
  \<^verbatim>\<open>getRandomGame\<close> throws is the exhaustion error.
\<close>

theorem zero_total_is_retried:
  "(gb_games_reply gw (length (reqs gs)) (GamesReq None ''1'' None ''id'') = Inr (Some cd) \<longrightarrow>
      number_of_total_results cd = 0 \<longrightarrow>
      gb_try gw gs = (Inl NoGamesError, gs\<lparr>reqs := reqs gs @ [GamesReq None ''1'' None ''id'']\<rparr>) \<and>
      gb_attempt gw gs = (Inr None, gs\<lparr>reqs := reqs gs @ [GamesReq None ''1'' None ''id'']\<rparr>) \<and>
      for_loop (Suc k) (gb_attempt gw) after gs =
        for_loop k (gb_attempt gw) after (gs\<lparr>reqs := reqs gs @ [GamesReq None ''1'' None ''id'']\<rparr>)) \<and>
   fst (getRandomGame gw gs) \<noteq> Inl NoGamesError \<and>
   (fst (getRandomGame gw gs) = Inl e \<longrightarrow> e = ExhaustedError)"
proof (intro conjI impI)
  assume a: "gb_games_reply gw (length (reqs gs)) (GamesReq None ''1'' None ''id'') = Inr (Some cd)"
    and b: "number_of_total_results cd = 0"
  show thrown: "gb_try gw gs =
      (Inl NoGamesError, gs\<lparr>reqs := reqs gs @ [GamesReq None ''1'' None ''id'']\<rparr>)"
    by (rule gb_try_zero [OF a b])
  then show caught: "gb_attempt gw gs =
      (Inr None, gs\<lparr>reqs := reqs gs @ [GamesReq None ''1'' None ''id'']\<rparr>)"
    by (simp add: gb_attempt_def catch_io_def return_io_def)
  then show "for_loop (Suc k) (gb_attempt gw) after gs =
      for_loop k (gb_attempt gw) after (gs\<lparr>reqs := reqs gs @ [GamesReq None ''1'' None ''id'']\<rparr>)"
    by simp
next
  show "fst (getRandomGame gw gs) \<noteq> Inl NoGamesError"
  proof
    assume "fst (getRandomGame gw gs) = Inl NoGamesError"
    then obtain s' where "getRandomGame gw gs = (Inl NoGamesError, s')"
      by (cases "getRandomGame gw gs") simp
    then have "NoGamesError = ExhaustedError" by (rule getRandomGame_error)
    then show False by simp
  qed
next
  assume "fst (getRandomGame gw gs) = Inl e"
  then obtain s' where "getRandomGame gw gs = (Inl e, s')"
    by (cases "getRandomGame gw gs") simp
  then show "e = ExhaustedError" by (rule getRandomGame_error)
qed

theorem zero_total_is_retried_witness:
  "gb_games_reply gb_world_zero 0 (GamesReq None ''1'' None ''id'') = Inr (gb_window 0 []) \<and>
   gb_attempt gb_world_zero start = (Inr None, \<lparr>reqs = [GamesReq None ''1'' None ''id''], draws = 0\<rparr>) \<and>
   fst (getRandomGame gb_world_zero start) = Inl ExhaustedError \<and>
   length (reqs (snd (getRandomGame gb_world_zero start))) = 5"
proof -
  have a: "gb_games_reply gb_world_zero (length (reqs (start :: gb_request trace)))
      (GamesReq None ''1'' None ''id'') = Inr (Some \<lparr>number_of_total_results = 0, gb_results = Some []\<rparr>)"
    by (simp add: gb_world_zero_def gb_world_of_def gb_window_def)
  have b: "number_of_total_results \<lparr>number_of_total_results = 0, gb_results = Some []\<rparr> = 0"
    by simp
  have c: "getRandomGame gb_world_zero start =
      (Inl ExhaustedError, \<lparr>reqs = replicate 5 (GamesReq None ''1'' None ''id''), draws = 0\<rparr>)"
    by (simp add: getRandomGame_def MAX_ATTEMPTS_def numeral_eq_Suc gb_zero_attempt throw_io_def
        start_def)
  from zero_total_is_retried [of gb_world_zero start
      "\<lparr>number_of_total_results = 0, gb_results = Some []\<rparr>" 0 "throw_io ExhaustedError"
      ExhaustedError] a b
  have "gb_attempt gb_world_zero start =
      (Inr None, start\<lparr>reqs := reqs start @ [GamesReq None ''1'' None ''id'']\<rparr>)"
    by blast
  with a c show ?thesis by (simp add: start_def gb_window_def)
qed

text \<open>
  C7 as it was stated fails: the first probe reports zero games, and the call goes on to
  a second attempt, which finds a game; no error reaches the caller.
\<close>

theorem zero_total_counterexample:
  "gb_games_reply gb_world_zero_first 0 (GamesReq None ''1'' None ''id'') = Inr (gb_window 0 []) \<and>
   number_of_total_results \<lparr>number_of_total_results = 0, gb_results = Some []\<rparr> = 0 \<and>
   fst (getRandomGame gb_world_zero_first start) = Inr doom \<and>
   reqs (snd (getRandomGame gb_world_zero_first start)) =
     [GamesReq None ''1'' None ''id'', GamesReq None ''1'' None ''id'',
      GamesReq None ''1'' (Some 1) ''guid'', GameReq (JStr ''3030-1'')]"
proof -
  have "gb_games_reply gb_world_zero_first 0 (GamesReq None ''1'' None ''id'') = Inr (gb_window 0 [])"
    by (simp add: gb_world_zero_first_def gb_world_of_def)
  moreover have "fst (getRandomGame gb_world_zero_first start) = Inr doom \<and>
      reqs (snd (getRandomGame gb_world_zero_first start)) =
       [GamesReq None ''1'' None ''id'', GamesReq None ''1'' None ''id'',
        GamesReq None ''1'' (Some 1) ''guid'', GameReq (JStr ''3030-1'')]"
    by (simp add: getRandomGame_def MAX_ATTEMPTS_def numeral_eq_Suc gb_zero_first_first
        gb_zero_first_later start_def)
  ultimately show ?thesis by simp
qed

section \<open>Cache directives\<close>

lemma gb_valid_once:
  "getSortedGame_gb gb_world_valid [] [] s =
     (Inr doom,
      s\<lparr>reqs := reqs s @ [GamesReq (Some []) ''100'' None ''guid,name'', GameReq (JStr ''3030-1'')],
        draws := Suc (draws s)\<rparr>)"
  by (simp add: getSortedGame_gb_def filter_term_def gb_world_valid_def gb_world_of_def
      gb_window_def io_defs gb_defs Let_def element_def get_prop_def doom_summary_def)

lemma gb_valid_curated:
  "getSortedGame_curated gb_world_valid [] [] [] s =
     (Inr doom,
      s\<lparr>reqs := reqs s @ [GamesReq (Some []) ''100'' None ''guid,name,original_release_date'',
                            GameReq (JStr ''3030-1'')],
        draws := Suc (draws s)\<rparr>)"
  by (simp add: getSortedGame_curated_def filter_term_def gb_world_valid_def gb_world_of_def
      gb_window_def io_defs gb_defs Let_def element_def get_prop_def doom_summary_def
      has_release_date_def)

lemma rawg_valid_once:
  "getSortedGame_rawg rawg_world_valid g s =
     (Inr tetris,
      s\<lparr>reqs := reqs s @ [GamesQuery g None 1, GamesQuery g (Some 114) 40, GameById (JNum 7)],
        draws := Suc (Suc (draws s))\<rparr>)"
  by (simp add: getSortedGame_rawg_def rawg_world_valid_def rawg_page_def io_defs rawg_defs Let_def
      maxPage_9001 randomPage_of_def element_def get_prop_def)

text \<open>
  C8 does not hold of two handlers. A request for the resource \<^verbatim>\<open>game\<close> that finds a
  game is answered by the handler of \<^verbatim>\<open>src/api/giantbomb.js\<close> with status 200 and
  \<^verbatim>\<open>Cache-Control: s-maxage=3600, stale-while-revalidate\<close>, and by the handler of the
  variant with the platform catalogue with \<^verbatim>\<open>s-maxage=86400, stale-while-revalidate\<close>:
  both set one shared-cache header after the \<^verbatim>\<open>switch\<close>, for every resource. The handler
  of \<^verbatim>\<open>api/rawg.js\<close> answers the same request with
  \<^verbatim>\<open>no-cache, no-store, must-revalidate\<close>.
\<close>

theorem game_sample_shared_cache:
  "fst (handler_giantbomb (Some ''key'') gb_world_valid game_query start) =
     respond 200 (Some ''s-maxage=3600, stale-while-revalidate'') (Data (Json doom)) \<and>
   fst (handler_curated host_utc (Some ''key'') gb_world_valid game_query start) =
     respond 200 (Some ''s-maxage=86400, stale-while-revalidate'') (Data (Json doom)) \<and>
   fst (handler_rawg getSortedGame_rawg \<lparr>RAPIDAPI_KEY = Some ''key'', RAPIDAPI_HOST = Some ''host''\<rparr>
          rawg_world_valid game_query start) =
     respond 200 (Some ''no-cache, no-store, must-revalidate'') (Data (Json tetris))"
proof -
  have t: "truthy doom" "truthy tetris" by (simp_all add: doom_def tetris_def)
  show ?thesis
    by (simp add: handler_giantbomb_def handler_curated_def handler_rawg_def unset_def
        game_query_def or_empty_def Let_def gb_valid_once gb_valid_curated rawg_valid_once
        bind_io_def return_io_def t)
qed

section \<open>The platform catalogue\<close>















section \<open>An empty array of results\<close>

text \<open>
  C10. In \<^verbatim>\<open>getSortedGame\<close> of \<^verbatim>\<open>src/api/giantbomb.js\<close>, when the search reports a
  total that is not zero and an empty array of results, the element picked is
  \<^verbatim>\<open>undefined\<close> whatever \<^verbatim>\<open>Math.random()\<close> returned, and reading its \<^verbatim>\<open>guid\<close> throws a
  TypeError: the call ends with this exception after the one search request (and one random
  draw), with no detail request, no null result and no second attempt.
\<close>

theorem empty_results_type_error:
  assumes "gb_games_reply w (length (reqs s))
             (GamesReq (Some (join_comma (filter_term ''genres'' genres @ filter_term ''platforms'' platforms)))
                ''100'' None ''guid,name'') = Inr (Some sd)"
    and "number_of_total_results sd \<noteq> 0"
    and "gb_results sd = Some []"
  shows "getSortedGame_gb w genres platforms s =
      (Inl TypeError,
       s\<lparr>reqs := reqs s @
            [GamesReq (Some (join_comma (filter_term ''genres'' genres @ filter_term ''platforms'' platforms)))
               ''100'' None ''guid,name''],
         draws := Suc (draws s)\<rparr>) \<and>
    element [] (random_floor (gb_random w (draws s)) 0) = JUndefined \<and>
    get_prop JUndefined ''guid'' = Inl TypeError"
  using assms
  by (simp add: getSortedGame_gb_def io_defs gb_defs Let_def element_def get_prop_def)

theorem empty_results_type_error_witness:
  "gb_games_reply gb_world_empty 0 (GamesReq (Some []) ''100'' None ''guid,name'') = Inr (gb_window 4 []) \<and>
   getSortedGame_gb gb_world_empty [] [] start =
     (Inl TypeError, \<lparr>reqs = [GamesReq (Some []) ''100'' None ''guid,name''], draws = 1\<rparr>) \<and>
   fst (handler_giantbomb (Some ''key'') gb_world_empty game_query start) =
     respond 500 None (Message (ErrorMessage TypeError))"
proof -
  have f: "join_comma (filter_term ''genres'' [] @ filter_term ''platforms'' []) = []"
    by (simp add: filter_term_def)
  have a: "gb_games_reply gb_world_empty (length (reqs (start :: gb_request trace)))
      (GamesReq (Some (join_comma (filter_term ''genres'' [] @ filter_term ''platforms'' [])))
         ''100'' None ''guid,name'') = Inr (Some \<lparr>number_of_total_results = 4, gb_results = Some []\<rparr>)"
    by (simp add: gb_world_empty_def gb_world_of_def gb_window_def)
  have b: "number_of_total_results \<lparr>number_of_total_results = 4, gb_results = Some []\<rparr> \<noteq> 0"
    "gb_results \<lparr>number_of_total_results = 4, gb_results = Some []\<rparr> = Some []"
    by simp_all
  from empty_results_type_error [OF a b]
  have run: "getSortedGame_gb gb_world_empty [] [] start =
      (Inl TypeError, \<lparr>reqs = [GamesReq (Some []) ''100'' None ''guid,name''], draws = 1\<rparr>)"
    by (simp add: f start_def)
  have "fst (handler_giantbomb (Some ''key'') gb_world_empty game_query start) =
      respond 500 None (Message (ErrorMessage TypeError))"
    by (simp add: handler_giantbomb_def unset_def game_query_def or_empty_def Let_def run)
  with run a show ?thesis by (simp add: f start_def gb_window_def)
qed

end
